theory Spec2Isabelle
  imports Complex_Main "HOL-Library.Word"
begin

section \<open>Values passed to rules\<close>

text \<open>
  The validator (\<^verbatim>\<open>src/validator.go\<close>) comes in two variants of the same package: an
  instantiable one (a \<^verbatim>\<open>Validator\<close> struct created by \<^verbatim>\<open>New\<close>, lines 1 to 255) and a
  singleton one (package-level tables filled by \<^verbatim>\<open>Init\<close>, lines 256 to 475). Names of the
  instantiable variant carry the suffix \<open>_v\<close> where both variants declare the same name.

  A rule receives \<^verbatim>\<open>[]any\<close> and inspects every operand with \<^verbatim>\<open>reflect\<close>. The model of
  \<^verbatim>\<open>any\<close> has one constructor per kind the rules distinguish. A \<^verbatim>\<open>float64\<close> is a
  rational, an infinity or NaN; Go compares floats as IEEE 754 does, so every ordered
  comparison with NaN is false.
\<close>

datatype float64 = Finite rat | PosInf | NegInf | NaN

text \<open>Go's \<^verbatim>\<open>a <= b\<close> on \<^verbatim>\<open>float64\<close>.\<close>

fun f64_le :: "float64 \<Rightarrow> float64 \<Rightarrow> bool" where
  "f64_le NaN y = False"
| "f64_le x NaN = False"
| "f64_le NegInf y = True"
| "f64_le x PosInf = True"
| "f64_le PosInf y = False"
| "f64_le x NegInf = False"
| "f64_le (Finite a) (Finite b) = (a \<le> b)"

text \<open>Go's \<^verbatim>\<open>a >= b\<close> on \<^verbatim>\<open>float64\<close>.\<close>

fun f64_ge :: "float64 \<Rightarrow> float64 \<Rightarrow> bool" where
  "f64_ge NaN y = False"
| "f64_ge x NaN = False"
| "f64_ge PosInf y = True"
| "f64_ge x NegInf = True"
| "f64_ge NegInf y = False"
| "f64_ge x PosInf = False"
| "f64_ge (Finite a) (Finite b) = (b \<le> a)"

text \<open>Go's \<^verbatim>\<open>a < b\<close> on \<^verbatim>\<open>float64\<close>: the strict order the specification speaks of.\<close>

fun f64_lt :: "float64 \<Rightarrow> float64 \<Rightarrow> bool" where
  "f64_lt NaN y = False"
| "f64_lt x NaN = False"
| "f64_lt PosInf y = False"
| "f64_lt x NegInf = False"
| "f64_lt NegInf y = True"
| "f64_lt x PosInf = True"
| "f64_lt (Finite a) (Finite b) = (a < b)"

text \<open>
  The conversion \<^verbatim>\<open>float64(i)\<close> of an integer: a \<^verbatim>\<open>float64\<close> has a 53-bit significand, so
  an integer below \<open>2 ^ 53\<close> in magnitude is exact and a larger one is rounded to the
  nearest multiple of \<open>2 ^ e\<close>, where \<open>e\<close> is its bit length minus 53, a tie going to the
  even significand.
\<close>

fun bit_length :: "nat \<Rightarrow> nat" where
  "bit_length n = (if n = 0 then 0 else Suc (bit_length (n div 2)))"

declare bit_length.simps [simp del]

definition round_to_53 :: "nat \<Rightarrow> nat" where
  "round_to_53 n =
     (if n < 2 ^ 53 then n
      else let e = bit_length n - 53;
               q = n div 2 ^ e;
               r = n mod 2 ^ e;
               half = 2 ^ (e - 1)
           in (if half < r \<or> (r = half \<and> odd q) then q + 1 else q) * 2 ^ e)"

definition float64_of_int :: "int \<Rightarrow> float64" where
  "float64_of_int z =
     Finite (of_int (if z < 0 then - int (round_to_53 (nat (- z))) else int (round_to_53 (nat z))))"

text \<open>
  Go's \<^verbatim>\<open>int\<close>, \<^verbatim>\<open>uint\<close> and \<^verbatim>\<open>uintptr\<close> are taken at 64 bits, as on every 64-bit target.
  A string is its bytes, so \<open>length\<close> is Go's \<^verbatim>\<open>len\<close>. \<open>Named n v\<close> is a value of a
  defined type \<open>n\<close> whose underlying value is \<open>v\<close> (\<^verbatim>\<open>type Age int\<close>): it has the kind of
  \<open>v\<close>, and a type assertion to the predeclared type does not succeed on it. The
  constructors without an argument are values of the kinds no rule looks into.
\<close>

datatype any =
    VNil
  | VBool bool
  | VInt "64 word" | VInt8 "8 word" | VInt16 "16 word" | VInt32 "32 word" | VInt64 "64 word"
  | VUint "64 word" | VUint8 "8 word" | VUint16 "16 word" | VUint32 "32 word"
  | VUint64 "64 word" | VUintptr "64 word"
  | VFloat32 float64 | VFloat64 float64
  | VComplex64 | VComplex128
  | VString string
  | VArray "any list" | VSlice "any list" | VMap "(any \<times> any) list"
  | VChan | VFunc | VPointer | VStruct "any list" | VUnsafePointer
  | Named string any

section \<open>Errors and panics\<close>

text \<open>
  An \<^verbatim>\<open>error\<close> made by \<^verbatim>\<open>errors.New\<close> is its text. One made by \<^verbatim>\<open>fmt.Errorf\<close> is kept
  as the arguments of its format string, in the order the source passes them:
  \<^item> \<open>Errorf_unsupported_comparer r v\<close>: \<^verbatim>\<open>"<r>: unsupported type %T for comparer"\<close>;
  \<^item> \<open>Errorf_unsupported_at r v p\<close>: \<^verbatim>\<open>"<r>: unsupported type %T at position %d"\<close>;
  \<^item> \<open>Errorf_not_greater p val c\<close>:
    \<^verbatim>\<open>"greaterThan: parameter at position %d (= %v) is not greater than %v"\<close>;
  \<^item> \<open>Errorf_not_less p val c\<close>:
    \<^verbatim>\<open>"lessThan: parameter at position %d (= %v) is not less than %v"\<close>.
\<close>

datatype error =
    errors_New string
  | Errorf_unsupported_comparer string any
  | Errorf_unsupported_at string any nat
  | Errorf_not_greater nat float64 float64
  | Errorf_not_less nat float64 float64

text \<open>A call returns a value or panics with a message.\<close>

datatype 'a outcome = Return 'a | Panic string

text \<open>\<^verbatim>\<open>%d\<close> of a non-negative integer.\<close>

definition digit :: "nat \<Rightarrow> char" where
  "digit d = ''0123456789'' ! d"

fun digits :: "nat \<Rightarrow> string" where
  "digits n = (if n < 10 then [digit n] else digits (n div 10) @ [digit (n mod 10)])"

declare digits.simps [simp del]

text \<open>
  A \<^verbatim>\<open>RuleFunc\<close> is \<^verbatim>\<open>func(param []any) error\<close>. A Go closure may read and write
  whatever it captured; that environment is the state \<open>'w\<close>, which every call of a rule
  or of a predicate takes and returns. The built-in rules do not touch it.
\<close>

type_synonym 'w RuleFunc = "any list \<Rightarrow> 'w \<Rightarrow> error option outcome \<times> 'w"

definition pure_rule :: "(any list \<Rightarrow> error option outcome) \<Rightarrow> 'w RuleFunc" where
  "pure_rule f = (\<lambda>param w. (f param, w))"

section \<open>The built-in rules\<close>

subsection \<open>\<^verbatim>\<open>strings.TrimSpace\<close>\<close>

text \<open>
  \<^verbatim>\<open>strings.TrimSpace\<close> removes the leading and then the trailing white space of a string,
  one rune at a time, as \<^verbatim>\<open>unicode.IsSpace\<close> defines it: the six ASCII characters tab,
  line feed, vertical tab, form feed, carriage return and space, and the runes U+0085,
  U+00A0, U+1680, U+2000 to U+200A, U+2028, U+2029, U+202F, U+205F and U+3000. On the
  bytes of the string these are the following UTF-8 encodings; a byte sequence that is
  not a valid encoding decodes to U+FFFD, which is not white space.
\<close>

definition space_encodings :: "string list" where
  "space_encodings =
     [ [CHR 0x09], [CHR 0x0A], [CHR 0x0B], [CHR 0x0C], [CHR 0x0D], [CHR 0x20],
      [CHR 0xC2, CHR 0x85], [CHR 0xC2, CHR 0xA0],
      [CHR 0xE1, CHR 0x9A, CHR 0x80],
      [CHR 0xE2, CHR 0x80, CHR 0x80], [CHR 0xE2, CHR 0x80, CHR 0x81],
      [CHR 0xE2, CHR 0x80, CHR 0x82], [CHR 0xE2, CHR 0x80, CHR 0x83],
      [CHR 0xE2, CHR 0x80, CHR 0x84], [CHR 0xE2, CHR 0x80, CHR 0x85],
      [CHR 0xE2, CHR 0x80, CHR 0x86], [CHR 0xE2, CHR 0x80, CHR 0x87],
      [CHR 0xE2, CHR 0x80, CHR 0x88], [CHR 0xE2, CHR 0x80, CHR 0x89],
      [CHR 0xE2, CHR 0x80, CHR 0x8A],
      [CHR 0xE2, CHR 0x80, CHR 0xA8], [CHR 0xE2, CHR 0x80, CHR 0xA9],
      [CHR 0xE2, CHR 0x80, CHR 0xAF],
      [CHR 0xE2, CHR 0x81, CHR 0x9F],
      [CHR 0xE3, CHR 0x80, CHR 0x80] ]"

definition is_space_encoding :: "string \<Rightarrow> bool" where
  "is_space_encoding bs = (bs \<in> set space_encodings)"

text \<open>The number of bytes of the white-space rune a string starts with, 0 if it starts with none.\<close>

definition leading_space :: "string \<Rightarrow> nat" where
  "leading_space s =
     (if is_space_encoding (take 1 s) then 1
      else if is_space_encoding (take 2 s) then 2
      else if is_space_encoding (take 3 s) then 3
      else 0)"

text \<open>The same for the rune a string ends with.\<close>

definition trailing_space :: "string \<Rightarrow> nat" where
  "trailing_space s =
     (if is_space_encoding (drop (length s - 1) s) then 1
      else if is_space_encoding (drop (length s - 2) s) then 2
      else if is_space_encoding (drop (length s - 3) s) then 3
      else 0)"

function TrimLeft_space :: "string \<Rightarrow> string" where
  "TrimLeft_space s =
     (let k = leading_space s in if k = 0 then s else TrimLeft_space (drop k s))"
  by pat_completeness auto
termination
proof (relation "measure length")
  show "wf (measure length)" by simp
next
  fix s :: string and k :: nat
  assume "k = leading_space s" and "k \<noteq> 0"
  then have "s \<noteq> []" and "0 < k"
    by (cases s; simp add: leading_space_def is_space_encoding_def space_encodings_def)+
  then show "(drop k s, s) \<in> measure length"
    by simp
qed

declare TrimLeft_space.simps [simp del]

function TrimRight_space :: "string \<Rightarrow> string" where
  "TrimRight_space s =
     (let k = trailing_space s in if k = 0 then s else TrimRight_space (take (length s - k) s))"
  by pat_completeness auto
termination
proof (relation "measure length")
  show "wf (measure length)" by simp
next
  fix s :: string and k :: nat
  assume "k = trailing_space s" and "k \<noteq> 0"
  then have "s \<noteq> []" and "0 < k"
    by (cases s; simp add: trailing_space_def is_space_encoding_def space_encodings_def)+
  then show "(take (length s - k) s, s) \<in> measure length"
    by simp
qed

declare TrimRight_space.simps [simp del]

definition TrimSpace :: "string \<Rightarrow> string" where
  "TrimSpace s = TrimRight_space (TrimLeft_space s)"

subsection \<open>\<^verbatim>\<open>notEmpty\<close>\<close>

text \<open>
  The rule \<^verbatim>\<open>New\<close> registers (lines 68 to 89). The length of an operand is \<^verbatim>\<open>rv.Len()\<close>
  for the kinds array, slice and map, the length of the trimmed string for the kind
  string, and stays 0 for every other kind. The assertion \<^verbatim>\<open>p.(string)\<close> has one result,
  so it panics on a value of kind string whose type is not \<^verbatim>\<open>string\<close> itself.
\<close>

fun notEmpty_length :: "any \<Rightarrow> any \<Rightarrow> nat outcome" where
  "notEmpty_length p (VArray xs) = Return (length xs)"
| "notEmpty_length p (VSlice xs) = Return (length xs)"
| "notEmpty_length p (VMap kvs) = Return (length kvs)"
| "notEmpty_length p (VString s) =
     (case p of VString str \<Rightarrow> Return (length (TrimSpace str))
      | _ \<Rightarrow> Panic ''interface conversion: interface {} is not string'')"
| "notEmpty_length p (Named n v) = notEmpty_length p v"
| "notEmpty_length p _ = Return 0"

fun notEmpty_New :: "any list \<Rightarrow> error option outcome" where
  "notEmpty_New [] = Return None"
| "notEmpty_New (p # param) =
     (case notEmpty_length p p of
        Panic m \<Rightarrow> Panic m
      | Return len \<Rightarrow>
          if len = 0 then Return (Some (errors_New ''required rule failed''))
          else notEmpty_New param)"

text \<open>
  The rule \<^verbatim>\<open>Init\<close> registers (lines 346 to 359): an operand that is not a \<^verbatim>\<open>string\<close> is
  passed over by \<^verbatim>\<open>continue\<close>.
\<close>

fun notEmpty_Init :: "any list \<Rightarrow> error option outcome" where
  "notEmpty_Init [] = Return None"
| "notEmpty_Init (p # param) =
     (case p of
        VString str \<Rightarrow>
          if length (TrimSpace str) = 0 then Return (Some (errors_New ''rule required failed''))
          else notEmpty_Init param
      | _ \<Rightarrow> notEmpty_Init param)"

subsection \<open>\<^verbatim>\<open>greaterThan\<close> and \<^verbatim>\<open>lessThan\<close>\<close>

text \<open>
  \<^verbatim>\<open>New\<close> (lines 91 to 203) and \<^verbatim>\<open>Init\<close> (lines 361 to 473) register the same two
  functions, character for character, so each is modelled once. The two \<^verbatim>\<open>switch\<close>
  statements on \<^verbatim>\<open>rv.Kind()\<close> become functions to \<open>float64 option\<close>, \<open>None\<close> being the
  \<^verbatim>\<open>default\<close> branch. The comparer of \<^verbatim>\<open>greaterThan\<close> accepts the kind map; the
  compared operands, and both switches of \<^verbatim>\<open>lessThan\<close>, do not.
\<close>

fun comparer_with_map :: "any \<Rightarrow> float64 option" where
  "comparer_with_map (VString s) = Some (float64_of_int (int (length s)))"
| "comparer_with_map (VArray xs) = Some (float64_of_int (int (length xs)))"
| "comparer_with_map (VSlice xs) = Some (float64_of_int (int (length xs)))"
| "comparer_with_map (VMap kvs) = Some (float64_of_int (int (length kvs)))"
| "comparer_with_map (VInt i) = Some (float64_of_int (sint i))"
| "comparer_with_map (VInt8 i) = Some (float64_of_int (sint i))"
| "comparer_with_map (VInt16 i) = Some (float64_of_int (sint i))"
| "comparer_with_map (VInt32 i) = Some (float64_of_int (sint i))"
| "comparer_with_map (VInt64 i) = Some (float64_of_int (sint i))"
| "comparer_with_map (VUint u) = Some (float64_of_int (uint u))"
| "comparer_with_map (VUint8 u) = Some (float64_of_int (uint u))"
| "comparer_with_map (VUint16 u) = Some (float64_of_int (uint u))"
| "comparer_with_map (VUint32 u) = Some (float64_of_int (uint u))"
| "comparer_with_map (VUint64 u) = Some (float64_of_int (uint u))"
| "comparer_with_map (VUintptr u) = Some (float64_of_int (uint u))"
| "comparer_with_map (VFloat32 f) = Some f"
| "comparer_with_map (VFloat64 f) = Some f"
| "comparer_with_map (Named n v) = comparer_with_map v"
| "comparer_with_map _ = None"

fun operand_value :: "any \<Rightarrow> float64 option" where
  "operand_value (VString s) = Some (float64_of_int (int (length s)))"
| "operand_value (VArray xs) = Some (float64_of_int (int (length xs)))"
| "operand_value (VSlice xs) = Some (float64_of_int (int (length xs)))"
| "operand_value (VInt i) = Some (float64_of_int (sint i))"
| "operand_value (VInt8 i) = Some (float64_of_int (sint i))"
| "operand_value (VInt16 i) = Some (float64_of_int (sint i))"
| "operand_value (VInt32 i) = Some (float64_of_int (sint i))"
| "operand_value (VInt64 i) = Some (float64_of_int (sint i))"
| "operand_value (VUint u) = Some (float64_of_int (uint u))"
| "operand_value (VUint8 u) = Some (float64_of_int (uint u))"
| "operand_value (VUint16 u) = Some (float64_of_int (uint u))"
| "operand_value (VUint32 u) = Some (float64_of_int (uint u))"
| "operand_value (VUint64 u) = Some (float64_of_int (uint u))"
| "operand_value (VUintptr u) = Some (float64_of_int (uint u))"
| "operand_value (VFloat32 f) = Some f"
| "operand_value (VFloat64 f) = Some f"
| "operand_value (Named n v) = operand_value v"
| "operand_value _ = None"

text \<open>
  The loop \<^verbatim>\<open>for i, arg := range params[1:]\<close> of \<^verbatim>\<open>greaterThan\<close>: \<open>i\<close> is the index in
  \<^verbatim>\<open>params[1:]\<close>, so the position reported is \<open>i + 2\<close>.
\<close>

fun greaterThan_loop :: "float64 \<Rightarrow> nat \<Rightarrow> any list \<Rightarrow> error option" where
  "greaterThan_loop comparer i [] = None"
| "greaterThan_loop comparer i (arg # rest) =
     (case operand_value arg of
        None \<Rightarrow> Some (Errorf_unsupported_at ''greaterThan'' arg (i + 2))
      | Some val \<Rightarrow>
          if f64_le val comparer then Some (Errorf_not_greater (i + 2) val comparer)
          else greaterThan_loop comparer (i + 1) rest)"

definition greaterThan :: "any list \<Rightarrow> error option outcome" where
  "greaterThan params =
     (if length params < 2
      then Panic (''greaterThan: expected at least 2 parameters, got '' @ digits (length params))
      else let first = params ! 0 in
        case comparer_with_map first of
          None \<Rightarrow> Return (Some (Errorf_unsupported_comparer ''greaterThan'' first))
        | Some comparer \<Rightarrow> Return (greaterThan_loop comparer 0 (drop 1 params)))"

fun lessThan_loop :: "float64 \<Rightarrow> nat \<Rightarrow> any list \<Rightarrow> error option" where
  "lessThan_loop comparer i [] = None"
| "lessThan_loop comparer i (arg # rest) =
     (case operand_value arg of
        None \<Rightarrow> Some (Errorf_unsupported_at ''lessThan'' arg (i + 2))
      | Some val \<Rightarrow>
          if f64_ge val comparer then Some (Errorf_not_less (i + 2) val comparer)
          else lessThan_loop comparer (i + 1) rest)"

definition lessThan_rule :: "any list \<Rightarrow> error option outcome" where
  "lessThan_rule params =
     (if length params < 2
      then Panic (''lessThan: expected at least 2 parameters, got '' @ digits (length params))
      else let first = params ! 0 in
        case operand_value first of
          None \<Rightarrow> Return (Some (Errorf_unsupported_comparer ''lessThan'' first))
        | Some comparer \<Rightarrow> Return (lessThan_loop comparer 0 (drop 1 params)))"

subsection \<open>\<^verbatim>\<open>isEmail\<close>\<close>

text \<open>
  Registered by \<^verbatim>\<open>New\<close> only (lines 205 to 252). The six flags of the scan are a record and
  the body of the loop is \<open>isEmail_step\<close>. The source ranges over the runes of the
  string and the model over its bytes: every byte of a rune beyond ASCII is at least
  0x80 and a byte that does not decode is U+FFFD, so none of them is one of the four
  characters the loop compares with, and they take the branches a rune beyond ASCII
  takes, which set flags that stay set.
\<close>

record email_flags =
  ampIsThere :: bool
  spacesThere :: bool
  textBeforeAmp :: bool
  textAfterAmp :: bool
  dotAfterAmp :: bool
  otherError :: bool

definition email_flags_init :: email_flags where
  "email_flags_init =
     \<lparr>ampIsThere = False, spacesThere = False, textBeforeAmp = False,
      textAfterAmp = False, dotAfterAmp = False, otherError = False\<rparr>"

definition isEmail_step :: "char \<Rightarrow> email_flags \<Rightarrow> email_flags" where
  "isEmail_step r f =
     (let f1 =
        (if r = CHR ''@'' then
           (if ampIsThere f then f\<lparr>otherError := True\<rparr> else f)\<lparr>ampIsThere := True\<rparr>
         else if \<not> ampIsThere f then f\<lparr>textBeforeAmp := True\<rparr>
         else if r = CHR ''.'' then f\<lparr>dotAfterAmp := True\<rparr>
         else f\<lparr>textAfterAmp := True\<rparr>)
      in if r = CHR '' '' \<or> r = CHR '','' then f1\<lparr>spacesThere := True\<rparr> else f1)"

definition isEmail_scan :: "string \<Rightarrow> email_flags" where
  "isEmail_scan email = fold isEmail_step email email_flags_init"

definition isEmail :: "any list \<Rightarrow> error option outcome" where
  "isEmail param =
     (case param of
        [] \<Rightarrow> Panic ''No parameters passed to email rule''
      | p # _ \<Rightarrow>
          (case p of
             VString email \<Rightarrow>
               (let f = isEmail_scan email in
                if spacesThere f \<or> \<not> ampIsThere f \<or> \<not> textAfterAmp f \<or> \<not> textBeforeAmp f
                   \<or> \<not> dotAfterAmp f \<or> otherError f
                then Return (Some (errors_New
                  ''Email addresses must be valid, working, and must have no commas or spaces''))
                else Return None)
           | _ \<Rightarrow> Panic ''Parameter passed to email rule is not a string''))"

section \<open>The singleton variant\<close>

text \<open>
  \<^verbatim>\<open>ValidationContext\<close> (lines 296 to 298) holds the stored error, \<open>None\<close> being \<^verbatim>\<open>nil\<close>.
  A method of the context takes the context and the environment \<open>'w\<close> and gives back
  both, with \<open>Return ()\<close> where the source returns \<^verbatim>\<open>ctx\<close> and \<open>Panic\<close> where it panics; the
  context given back with a panic is the one the caller still holds.
\<close>

record ValidationContext =
  err :: "error option"

type_synonym 'w rule_table = "string \<rightharpoonup> 'w RuleFunc"

type_synonym 'w action = "ValidationContext \<Rightarrow> 'w \<Rightarrow> unit outcome \<times> ValidationContext \<times> 'w"

definition Message :: "string \<Rightarrow> 'w action" where
  "Message message ctx w =
     (Return (), (if err ctx \<noteq> None then ctx\<lparr>err := Some (errors_New message)\<rparr> else ctx), w)"

text \<open>\<^verbatim>\<open>Check\<close> reads the package-level table \<^verbatim>\<open>rules\<close>, which the model passes in.\<close>

definition Check :: "'w rule_table \<Rightarrow> string \<Rightarrow> any list \<Rightarrow> 'w action" where
  "Check rules handlerName params ctx w =
     (if err ctx \<noteq> None then (Return (), ctx, w)
      else case rules handlerName of
        None \<Rightarrow> (Panic (''Rule '' @ handlerName @ '' has not been registered''), ctx, w)
      | Some rule \<Rightarrow>
          (case rule params w of
             (Return e, w') \<Rightarrow> (Return (), ctx\<lparr>err := e\<rparr>, w')
           | (Panic m, w') \<Rightarrow> (Panic m, ctx, w')))"

definition MustErr :: "('w \<Rightarrow> error option outcome \<times> 'w) \<Rightarrow> 'w action" where
  "MustErr fnc ctx w =
     (if err ctx \<noteq> None then (Return (), ctx, w)
      else case fnc w of
        (Return e, w') \<Rightarrow> (Return (), ctx\<lparr>err := e\<rparr>, w')
      | (Panic m, w') \<Rightarrow> (Panic m, ctx, w'))"

definition Must :: "('w \<Rightarrow> bool outcome \<times> 'w) \<Rightarrow> 'w action" where
  "Must fnc ctx w =
     (if err ctx \<noteq> None then (Return (), ctx, w)
      else case fnc w of
        (Return b, w') \<Rightarrow>
          (Return (), (if \<not> b then ctx\<lparr>err := Some (errors_New ''rule failed'')\<rparr> else ctx), w')
      | (Panic m, w') \<Rightarrow> (Panic m, ctx, w'))"

text \<open>
  The two package-level tables (lines 283 and 284), both made by \<^verbatim>\<open>make\<close>. A handler
  is \<^verbatim>\<open>func(a any, ctx *ValidationContext)\<close>; it reaches the table \<^verbatim>\<open>rules\<close> through
  \<^verbatim>\<open>ctx.Check\<close>, so the model hands it the table as it is when the handler runs. The
  values to validate are of a type \<open>'a\<close>, and \<^verbatim>\<open>reflect.TypeOf\<close> and \<^verbatim>\<open>Type.Name\<close>,
  which the repository does not define, are the parameters \<open>TypeOf\<close> and \<open>Name\<close>.
\<close>

type_synonym ('a, 'w) HandlerFunc = "'a \<Rightarrow> 'w rule_table \<Rightarrow> 'w action"

record ('ty, 'a, 'w) globals =
  rules :: "'w rule_table"
  typeHandlers :: "'ty \<rightharpoonup> ('a, 'w) HandlerFunc"

definition globals_init :: "('ty, 'a, 'w) globals" where
  "globals_init = \<lparr>rules = Map.empty, typeHandlers = Map.empty\<rparr>"

definition RegisterRule ::
  "string \<Rightarrow> 'w RuleFunc \<Rightarrow> ('ty, 'a, 'w) globals \<Rightarrow> ('ty, 'a, 'w) globals" where
  "RegisterRule ruleName fnc g = g\<lparr>rules := (rules g)(ruleName \<mapsto> fnc)\<rparr>"

text \<open>
  \<^verbatim>\<open>RegisterType[T]\<close> stores under \<^verbatim>\<open>reflect.TypeFor[T]()\<close>, here \<open>T\<close>, a closure that
  asserts \<^verbatim>\<open>a.(T)\<close> and calls the handler; the assertion panics on a value of another
  type.
\<close>

definition assert_type :: "('a \<Rightarrow> 'ty) \<Rightarrow> 'ty \<Rightarrow> ('a, 'w) HandlerFunc \<Rightarrow> ('a, 'w) HandlerFunc" where
  "assert_type TypeOf T handler =
     (\<lambda>a rs ctx w.
        if TypeOf a = T then handler a rs ctx w
        else (Panic ''interface conversion: interface {} is not T'', ctx, w))"

definition RegisterType ::
  "('a \<Rightarrow> 'ty) \<Rightarrow> 'ty \<Rightarrow> ('a, 'w) HandlerFunc \<Rightarrow> ('ty, 'a, 'w) globals \<Rightarrow> ('ty, 'a, 'w) globals" where
  "RegisterType TypeOf T handler g =
     g\<lparr>typeHandlers := (typeHandlers g)(T \<mapsto> assert_type TypeOf T handler)\<rparr>"

definition ValidateStruct ::
  "('a \<Rightarrow> 'ty) \<Rightarrow> ('ty \<Rightarrow> string) \<Rightarrow> ('ty, 'a, 'w) globals \<Rightarrow> 'a \<Rightarrow> 'w
     \<Rightarrow> error option outcome \<times> 'w" where
  "ValidateStruct TypeOf Name g s w =
     (let typ = TypeOf s in
      case typeHandlers g (TypeOf s) of
        None \<Rightarrow>
          (Panic (''Type '' @ [CHR 0x22] @ Name typ @ [CHR 0x22]
                   @ '' Hasn't been registered with RegisterType''), w)
      | Some handler \<Rightarrow>
          (let ctx = \<lparr>err = None\<rparr> in
           case handler s (rules g) ctx w of
             (Return u, ctx', w') \<Rightarrow> (Return (err ctx'), w')
           | (Panic m, ctx', w') \<Rightarrow> (Panic m, w')))"

text \<open>\<^verbatim>\<open>Init\<close> (lines 345 to 475) registers three rules.\<close>

definition Init :: "('ty, 'a, 'w) globals \<Rightarrow> ('ty, 'a, 'w) globals" where
  "Init g =
     RegisterRule ''lessThan'' (pure_rule lessThan_rule)
       (RegisterRule ''greaterThan'' (pure_rule greaterThan)
          (RegisterRule ''notEmpty'' (pure_rule notEmpty_Init) g))"

text \<open>
  A handler written as a chain of calls on the context, one \<open>step\<close> per call; a panic
  ends the chain.
\<close>

datatype 'w step =
    CheckStep string "any list"
  | MustStep "'w \<Rightarrow> bool outcome \<times> 'w"
  | MustErrStep "'w \<Rightarrow> error option outcome \<times> 'w"
  | MessageStep string

fun run_step :: "'w rule_table \<Rightarrow> 'w step \<Rightarrow> 'w action" where
  "run_step rs (CheckStep handlerName params) = Check rs handlerName params"
| "run_step rs (MustStep fnc) = Must fnc"
| "run_step rs (MustErrStep fnc) = MustErr fnc"
| "run_step rs (MessageStep message) = Message message"

fun run_chain :: "'w rule_table \<Rightarrow> 'w step list \<Rightarrow> 'w action" where
  "run_chain rs [] ctx w = (Return (), ctx, w)"
| "run_chain rs (st # sts) ctx w =
     (case run_step rs st ctx w of
        (Return u, ctx', w') \<Rightarrow> run_chain rs sts ctx' w'
      | (Panic m, ctx', w') \<Rightarrow> (Panic m, ctx', w'))"

definition chain_handler :: "('a \<Rightarrow> 'w step list) \<Rightarrow> ('a, 'w) HandlerFunc" where
  "chain_handler body = (\<lambda>a rs. run_chain rs (body a))"

section \<open>The instantiable variant\<close>

text \<open>
  \<^verbatim>\<open>Validator\<close> (lines 16 to 19) holds two Go maps. The zero value of a map is \<^verbatim>\<open>nil\<close>:
  reading a \<^verbatim>\<open>nil\<close> map finds nothing, and assigning to an entry of one panics. A map is
  therefore an \<open>option\<close>, \<open>None\<close> being \<^verbatim>\<open>nil\<close>. The handlers of this variant take a value
  and a context of a type \<open>'c\<close>, which stands for \<^verbatim>\<open>*ValidationContext\<close> and whatever
  else the handler reaches.
\<close>

type_synonym ('a, 'c) HandlerFunc_v = "'a \<Rightarrow> 'c \<Rightarrow> unit outcome \<times> 'c"

record ('ty, 'a, 'c, 'w) Validator =
  rules_v :: "(string \<rightharpoonup> 'w RuleFunc) option"
  typeHandlers_v :: "('ty \<rightharpoonup> ('a, 'c) HandlerFunc_v) option"

definition map_index :: "('k \<rightharpoonup> 'v) option \<Rightarrow> 'k \<Rightarrow> 'v option" where
  "map_index m k = (case m of None \<Rightarrow> None | Some f \<Rightarrow> f k)"

definition map_assign :: "('k \<rightharpoonup> 'v) option \<Rightarrow> 'k \<Rightarrow> 'v \<Rightarrow> ('k \<rightharpoonup> 'v) option outcome" where
  "map_assign m k x =
     (case m of
        None \<Rightarrow> Panic ''assignment to entry in nil map''
      | Some f \<Rightarrow> Return (Some (f(k \<mapsto> x))))"

definition RegisterRule_v ::
  "('ty, 'a, 'c, 'w) Validator \<Rightarrow> string \<Rightarrow> 'w RuleFunc \<Rightarrow> ('ty, 'a, 'c, 'w) Validator outcome" where
  "RegisterRule_v v ruleName fnc =
     (case map_assign (rules_v v) ruleName fnc of
        Panic m \<Rightarrow> Panic m
      | Return rs \<Rightarrow> Return (v\<lparr>rules_v := rs\<rparr>))"

definition assert_type_v ::
  "('a \<Rightarrow> 'ty) \<Rightarrow> 'ty \<Rightarrow> ('a, 'c) HandlerFunc_v \<Rightarrow> ('a, 'c) HandlerFunc_v" where
  "assert_type_v TypeOf T handler =
     (\<lambda>a cc.
        if TypeOf a = T then handler a cc
        else (Panic ''interface conversion: interface {} is not T'', cc))"

definition RegisterType_v ::
  "('a \<Rightarrow> 'ty) \<Rightarrow> ('ty, 'a, 'c, 'w) Validator \<Rightarrow> 'ty \<Rightarrow> ('a, 'c) HandlerFunc_v
     \<Rightarrow> ('ty, 'a, 'c, 'w) Validator outcome" where
  "RegisterType_v TypeOf v T handler =
     (case map_assign (typeHandlers_v v) T (assert_type_v TypeOf T handler) of
        Panic m \<Rightarrow> Panic m
      | Return hs \<Rightarrow> Return (v\<lparr>typeHandlers_v := hs\<rparr>))"

text \<open>
  \<^verbatim>\<open>ValidationContext\<close> of this variant (lines 10 to 13): a pointer to the validator,
  \<open>None\<close> being \<^verbatim>\<open>nil\<close>, and the stored error.
\<close>

record ('ty, 'a, 'c, 'w) ValidationContext_v =
  validator :: "('ty, 'a, 'c, 'w) Validator option"
  err_v :: "error option"

type_synonym ('ty, 'a, 'c, 'w) action_v =
  "('ty, 'a, 'c, 'w) ValidationContext_v \<Rightarrow> 'w
     \<Rightarrow> unit outcome \<times> ('ty, 'a, 'c, 'w) ValidationContext_v \<times> 'w"

definition Message_v :: "string \<Rightarrow> ('ty, 'a, 'c, 'w) action_v" where
  "Message_v message ctx w =
     (Return (), (if err_v ctx \<noteq> None then ctx\<lparr>err_v := Some (errors_New message)\<rparr> else ctx), w)"

definition Check_v :: "string \<Rightarrow> any list \<Rightarrow> ('ty, 'a, 'c, 'w) action_v" where
  "Check_v handlerName params ctx w =
     (if err_v ctx \<noteq> None then (Return (), ctx, w)
      else case validator ctx of
        None \<Rightarrow> (Panic ''runtime error: invalid memory address or nil pointer dereference'', ctx, w)
      | Some v \<Rightarrow>
          (case map_index (rules_v v) handlerName of
             None \<Rightarrow>
               (Panic (''Rule '' @ handlerName
                        @ '' has not been registered to specified validator''), ctx, w)
           | Some rule \<Rightarrow>
               (case rule params w of
                  (Return e, w') \<Rightarrow> (Return (), ctx\<lparr>err_v := e\<rparr>, w')
                | (Panic m, w') \<Rightarrow> (Panic m, ctx, w'))))"

definition Must_v :: "('w \<Rightarrow> bool outcome \<times> 'w) \<Rightarrow> ('ty, 'a, 'c, 'w) action_v" where
  "Must_v fnc ctx w =
     (if err_v ctx \<noteq> None then (Return (), ctx, w)
      else case fnc w of
        (Return b, w') \<Rightarrow>
          (Return (), (if \<not> b then ctx\<lparr>err_v := Some (errors_New ''rule failed'')\<rparr> else ctx), w')
      | (Panic m, w') \<Rightarrow> (Panic m, ctx, w'))"

text \<open>
  \<^verbatim>\<open>New\<close> (lines 66 to 255) makes \<^verbatim>\<open>&Validator{}\<close>, whose two maps are \<^verbatim>\<open>nil\<close>, and
  registers four rules on it. \<open>register_builtins\<close> is the four calls, in the order of
  the source, on the validator they are given.
\<close>

definition register_builtins ::
  "('ty, 'a, 'c, 'w) Validator \<Rightarrow> ('ty, 'a, 'c, 'w) Validator outcome" where
  "register_builtins v0 =
     (case RegisterRule_v v0 ''notEmpty'' (pure_rule notEmpty_New) of
        Panic m \<Rightarrow> Panic m
      | Return v1 \<Rightarrow>
     (case RegisterRule_v v1 ''greaterThan'' (pure_rule greaterThan) of
        Panic m \<Rightarrow> Panic m
      | Return v2 \<Rightarrow>
     (case RegisterRule_v v2 ''lessThan'' (pure_rule lessThan_rule) of
        Panic m \<Rightarrow> Panic m
      | Return v3 \<Rightarrow>
     RegisterRule_v v3 ''isEmail'' (pure_rule isEmail))))"

definition New :: "('ty, 'a, 'c, 'w) Validator outcome" where
  "New = register_builtins \<lparr>rules_v = None, typeHandlers_v = None\<rparr>"

section \<open>Notions used to state the properties\<close>

definition is_message :: "'w step \<Rightarrow> bool" where
  "is_message st = (case st of MessageStep m \<Rightarrow> True | _ \<Rightarrow> False)"

text \<open>
  The part of a string before its first \<^verbatim>\<open>@\<close> and the part after it.
\<close>

definition before_at :: "string \<Rightarrow> string" where
  "before_at s = takeWhile (\<lambda>c. c \<noteq> CHR ''@'') s"

definition after_at :: "string \<Rightarrow> string" where
  "after_at s = drop 1 (dropWhile (\<lambda>c. c \<noteq> CHR ''@'') s)"

text \<open>
  The acceptance condition of \<^verbatim>\<open>isEmail\<close> in the specification's words: exactly one
  \<^verbatim>\<open>@\<close>, at least one character before it, at least one \<^verbatim>\<open>.\<close> after it, at least one
  character other than \<^verbatim>\<open>.\<close> after the \<^verbatim>\<open>.\<close> (taken at the first \<^verbatim>\<open>.\<close> after the \<^verbatim>\<open>@\<close>, the
  reading that asks least), and no space or comma.
\<close>

definition spec_email_ok :: "string \<Rightarrow> bool" where
  "spec_email_ok s =
     (count_list s CHR ''@'' = 1
      \<and> before_at s \<noteq> []
      \<and> CHR ''.'' \<in> set (after_at s)
      \<and> list_ex (\<lambda>c. c \<noteq> CHR ''.'') (drop 1 (dropWhile (\<lambda>c. c \<noteq> CHR ''.'') (after_at s)))
      \<and> CHR '' '' \<notin> set s \<and> CHR '','' \<notin> set s)"

text \<open>
  The condition with the character other than \<^verbatim>\<open>.\<close> anywhere after the \<^verbatim>\<open>@\<close>.
\<close>

definition scan_email_ok :: "string \<Rightarrow> bool" where
  "scan_email_ok s =
     (count_list s CHR ''@'' = 1
      \<and> before_at s \<noteq> []
      \<and> CHR ''.'' \<in> set (after_at s)
      \<and> list_ex (\<lambda>c. c \<noteq> CHR ''.'') (after_at s)
      \<and> CHR '' '' \<notin> set s \<and> CHR '','' \<notin> set s)"

definition invalid_email :: error where
  "invalid_email =
     errors_New ''Email addresses must be valid, working, and must have no commas or spaces''"

text \<open>
  An operand whose type is \<^verbatim>\<open>string\<close> itself, and an operand of one of the kinds array,
  slice, map and string.
\<close>

fun is_string :: "any \<Rightarrow> bool" where
  "is_string (VString s) = True"
| "is_string _ = False"

fun kind_has_length :: "any \<Rightarrow> bool" where
  "kind_has_length (VArray xs) = True"
| "kind_has_length (VSlice xs) = True"
| "kind_has_length (VMap kvs) = True"
| "kind_has_length (VString s) = True"
| "kind_has_length (Named n v) = kind_has_length v"
| "kind_has_length _ = False"

definition required_New :: error where
  "required_New = errors_New ''required rule failed''"

definition required_Init :: error where
  "required_Init = errors_New ''rule required failed''"

text \<open>
  A compared operand passes \<^verbatim>\<open>greaterThan\<close> when it is of a supported kind and the test
  \<^verbatim>\<open>val <= comparer\<close> is false; it is strictly greater, in the specification's words,
  when \<^verbatim>\<open>comparer < val\<close>.
\<close>

definition passes_greaterThan :: "float64 \<Rightarrow> any \<Rightarrow> bool" where
  "passes_greaterThan comparer arg =
     (case operand_value arg of None \<Rightarrow> False | Some val \<Rightarrow> \<not> f64_le val comparer)"

definition strictly_greater :: "float64 \<Rightarrow> any \<Rightarrow> bool" where
  "strictly_greater comparer arg =
     (case operand_value arg of None \<Rightarrow> False | Some val \<Rightarrow> f64_lt comparer val)"

text \<open>
  What a chain of calls started on a fresh context records. \<open>first_failure_rest\<close> runs
  the steps while the context has no stored error and gives the error of the first step
  that stores one, with the steps after it; \<open>first_failure\<close>, in the specification's
  words, is that error. \<open>retext\<close> is what the steps after a failure do to the stored
  error: each \<^verbatim>\<open>Message\<close> replaces it, and nothing else touches it.
\<close>

fun first_failure_rest ::
  "'w rule_table \<Rightarrow> 'w step list \<Rightarrow> 'w \<Rightarrow> (error \<times> 'w step list) option" where
  "first_failure_rest rs [] w = None"
| "first_failure_rest rs (st # sts) w =
     (case run_step rs st \<lparr>err = None\<rparr> w of
        (Return u, ctx', w') \<Rightarrow>
          (case err ctx' of
             Some e \<Rightarrow> Some (e, sts)
           | None \<Rightarrow> first_failure_rest rs sts w')
      | (Panic m, ctx', w') \<Rightarrow> None)"

definition first_failure :: "'w rule_table \<Rightarrow> 'w step list \<Rightarrow> 'w \<Rightarrow> error option" where
  "first_failure rs sts w = map_option fst (first_failure_rest rs sts w)"

fun retext :: "error \<Rightarrow> 'w step list \<Rightarrow> error" where
  "retext e [] = e"
| "retext e (MessageStep message # sts) = retext (errors_New message) sts"
| "retext e (st # sts) = retext e sts"

definition stored_result :: "'w rule_table \<Rightarrow> 'w step list \<Rightarrow> 'w \<Rightarrow> error option" where
  "stored_result rs sts w =
     map_option (\<lambda>(e, rest). retext e rest) (first_failure_rest rs sts w)"

section \<open>Examples\<close>

text \<open>
  The values used where a property is shown at a concrete input: a person is a name and
  an age, its handler is the chain of the specification's end-to-end example, and every
  value has the type \<^verbatim>\<open>Person\<close>. The environment is a counter.
\<close>

definition example_TypeOf :: "string \<times> 64 word \<Rightarrow> string" where
  "example_TypeOf p = ''Person''"

definition example_Name :: "string \<Rightarrow> string" where
  "example_Name ty = ty"

definition person_body :: "string \<times> 64 word \<Rightarrow> nat step list" where
  "person_body p =
     [CheckStep ''notEmpty'' [VString (fst p)], MessageStep ''name required'',
      CheckStep ''greaterThan'' [VInt 0, VInt (snd p)], MessageStep ''age must be positive'']"

definition example_globals :: "(string, string \<times> 64 word, nat) globals" where
  "example_globals = globals_init"

definition example_validator :: "(string, string \<times> 64 word, nat, nat) Validator" where
  "example_validator = \<lparr>rules_v = Some Map.empty, typeHandlers_v = Some Map.empty\<rparr>"

text \<open>The tables after \<^verbatim>\<open>Init\<close> and the registration of the handler for a person.\<close>

definition person_globals :: "(string, string \<times> 64 word, nat) globals" where
  "person_globals =
     RegisterType example_TypeOf ''Person'' (chain_handler person_body) (Init example_globals)"

text \<open>
  The validator the four registrations of \<^verbatim>\<open>New\<close> give on allocated maps, and the tables
  with the handler for a person registered and no rule.
\<close>

definition builtin_validator :: "(string, string \<times> 64 word, nat, nat) Validator" where
  "builtin_validator =
     \<lparr>rules_v = Some [''notEmpty'' \<mapsto> pure_rule notEmpty_New,
                       ''greaterThan'' \<mapsto> pure_rule greaterThan,
                       ''lessThan'' \<mapsto> pure_rule lessThan_rule,
                       ''isEmail'' \<mapsto> pure_rule isEmail],
      typeHandlers_v = Some Map.empty\<rparr>"

definition unready_globals :: "(string, string \<times> 64 word, nat) globals" where
  "unready_globals =
     RegisterType example_TypeOf ''Person'' (chain_handler person_body) example_globals"

section \<open>Properties\<close>

subsection \<open>A failed context\<close>

lemma Check_failed: "err ctx \<noteq> None \<Longrightarrow> Check rs n ps ctx w = (Return (), ctx, w)"
  by (simp add: Check_def)

lemma Must_failed: "err ctx \<noteq> None \<Longrightarrow> Must fnc ctx w = (Return (), ctx, w)"
  by (simp add: Must_def)

lemma MustErr_failed: "err ctx \<noteq> None \<Longrightarrow> MustErr fnc ctx w = (Return (), ctx, w)"
  by (simp add: MustErr_def)

lemma run_step_failed:
  "err ctx \<noteq> None \<Longrightarrow> \<not> is_message st \<Longrightarrow> run_step rs st ctx w = (Return (), ctx, w)"
  by (cases st) (simp_all add: Check_failed Must_failed MustErr_failed is_message_def)

lemma run_chain_failed:
  "err ctx \<noteq> None \<Longrightarrow> list_all (\<lambda>st. \<not> is_message st) sts
     \<Longrightarrow> run_chain rs sts ctx w = (Return (), ctx, w)"
  by (induction sts) (simp_all add: run_step_failed)

lemma Check_v_failed: "err_v c \<noteq> None \<Longrightarrow> Check_v n ps c w = (Return (), c, w)"
  by (simp add: Check_v_def)

lemma Must_v_failed: "err_v c \<noteq> None \<Longrightarrow> Must_v fnc c w = (Return (), c, w)"
  by (simp add: Must_v_def)

text \<open>
  C1. On a context whose stored error is not \<^verbatim>\<open>nil\<close>, \<^verbatim>\<open>Check\<close>, \<^verbatim>\<open>Must\<close> and \<^verbatim>\<open>MustErr\<close>
  return the context as it is and leave the environment as it is, whatever the rule
  table, the rule name, the operands and the predicate are: no rule is looked up and
  nothing is called (a call would show in the environment, or as a panic). The same
  holds for any sequence of such calls, and for \<^verbatim>\<open>Check\<close> and \<^verbatim>\<open>Must\<close> of the instantiable
  variant, which has no \<^verbatim>\<open>MustErr\<close>.
\<close>

theorem failed_context_absorbs:
  "(err ctx \<noteq> None \<longrightarrow>
      Check rs n ps ctx w = (Return (), ctx, w)
    \<and> Must p ctx w = (Return (), ctx, w)
    \<and> MustErr f ctx w = (Return (), ctx, w)
    \<and> (list_all (\<lambda>st. \<not> is_message st) sts \<longrightarrow> run_chain rs sts ctx w = (Return (), ctx, w)))
   \<and> (err_v c \<noteq> None \<longrightarrow>
      Check_v n ps c w = (Return (), c, w) \<and> Must_v p c w = (Return (), c, w))"
  by (simp add: Check_failed Must_failed MustErr_failed run_chain_failed
        Check_v_failed Must_v_failed)

theorem failed_context_absorbs_witness:
  "err \<lparr>err = Some (errors_New ''first'')\<rparr> \<noteq> None
   \<and> Check (Map.empty :: nat rule_table) ''unregistered'' []
        \<lparr>err = Some (errors_New ''first'')\<rparr> (0::nat)
       = (Return (), \<lparr>err = Some (errors_New ''first'')\<rparr>, 0)
   \<and> Must (\<lambda>w. (Panic ''called'', Suc w)) \<lparr>err = Some (errors_New ''first'')\<rparr> (0::nat)
       = (Return (), \<lparr>err = Some (errors_New ''first'')\<rparr>, 0)
   \<and> MustErr (\<lambda>w. (Return (Some (errors_New ''second'')), Suc w))
        \<lparr>err = Some (errors_New ''first'')\<rparr> (0::nat)
       = (Return (), \<lparr>err = Some (errors_New ''first'')\<rparr>, 0)
   \<and> run_chain (Map.empty :: nat rule_table)
        [CheckStep ''unregistered'' [], MustStep (\<lambda>w. (Return False, Suc w))]
        \<lparr>err = Some (errors_New ''first'')\<rparr> (0::nat)
       = (Return (), \<lparr>err = Some (errors_New ''first'')\<rparr>, 0)
   \<and> err_v \<lparr>validator = (None :: (nat, nat, nat, nat) Validator option),
             err_v = Some (errors_New ''first'')\<rparr> \<noteq> None
   \<and> Check_v ''unregistered'' []
        \<lparr>validator = (None :: (nat, nat, nat, nat) Validator option),
         err_v = Some (errors_New ''first'')\<rparr> (0::nat)
       = (Return (), \<lparr>validator = None, err_v = Some (errors_New ''first'')\<rparr>, 0)
   \<and> Must_v (\<lambda>w. (Panic ''called'', Suc w))
        \<lparr>validator = (None :: (nat, nat, nat, nat) Validator option),
         err_v = Some (errors_New ''first'')\<rparr> (0::nat)
       = (Return (), \<lparr>validator = None, err_v = Some (errors_New ''first'')\<rparr>, 0)"
  using failed_context_absorbs
    [of "\<lparr>err = Some (errors_New ''first'')\<rparr>" "Map.empty :: nat rule_table"
        "''unregistered''" "[]" "0::nat"
        "\<lambda>w. (Panic ''called'', Suc w)" "\<lambda>w. (Return (Some (errors_New ''second'')), Suc w)"
        "[CheckStep ''unregistered'' [], MustStep (\<lambda>w. (Return False, Suc w))]"
        "\<lparr>validator = (None :: (nat, nat, nat, nat) Validator option),
          err_v = Some (errors_New ''first'')\<rparr>"]
  by (simp add: is_message_def del: run_chain.simps)

subsection \<open>\<^verbatim>\<open>Message\<close>\<close>

text \<open>
  C2. \<^verbatim>\<open>Message(text)\<close> leaves a context without a stored error as it is, and on a context
  with a stored error it stores \<^verbatim>\<open>errors.New(text)\<close>, the error whose text is \<open>text\<close>, in
  its place; in both variants, and without touching the environment.
\<close>

theorem Message_rewrites_only_failed:
  "(err ctx = None \<longrightarrow> Message t ctx w = (Return (), ctx, w))
   \<and> (err ctx \<noteq> None \<longrightarrow> Message t ctx w = (Return (), ctx\<lparr>err := Some (errors_New t)\<rparr>, w))
   \<and> (err_v c = None \<longrightarrow> Message_v t c w = (Return (), c, w))
   \<and> (err_v c \<noteq> None \<longrightarrow> Message_v t c w = (Return (), c\<lparr>err_v := Some (errors_New t)\<rparr>, w))"
  by (simp add: Message_def Message_v_def)

theorem Message_rewrites_only_failed_witness:
  "err \<lparr>err = Some (Errorf_not_greater 2 (Finite 4) (Finite 5))\<rparr> \<noteq> None
   \<and> Message ''age must be positive'' \<lparr>err = Some (Errorf_not_greater 2 (Finite 4) (Finite 5))\<rparr> (0::nat)
       = (Return (), \<lparr>err = Some (errors_New ''age must be positive'')\<rparr>, 0)
   \<and> err_v \<lparr>validator = (None :: (nat, nat, nat, nat) Validator option), err_v = None\<rparr> = None
   \<and> Message_v ''age must be positive''
        \<lparr>validator = (None :: (nat, nat, nat, nat) Validator option), err_v = None\<rparr> (0::nat)
       = (Return (), \<lparr>validator = None, err_v = None\<rparr>, 0)"
  using Message_rewrites_only_failed
    [of "\<lparr>err = Some (Errorf_not_greater 2 (Finite 4) (Finite 5))\<rparr>" "''age must be positive''"
        "0::nat" "\<lparr>validator = (None :: (nat, nat, nat, nat) Validator option), err_v = None\<rparr>"]
  by simp

subsection \<open>The registries\<close>

text \<open>What a registration of the singleton variant does to the two tables.\<close>

lemma RegisterRule_tables:
  "rules (RegisterRule n f g) = (rules g)(n \<mapsto> f)"
  "typeHandlers (RegisterRule n f g) = typeHandlers g"
  by (simp_all add: RegisterRule_def)

lemma RegisterType_tables:
  "typeHandlers (RegisterType TypeOf T h g) = (typeHandlers g)(T \<mapsto> assert_type TypeOf T h)"
  "rules (RegisterType TypeOf T h g) = rules g"
  by (simp_all add: RegisterType_def)

lemma assert_type_same: "assert_type TypeOf (TypeOf a) h a = h a"
  by (simp add: assert_type_def)

lemma assert_type_v_same: "assert_type_v TypeOf (TypeOf a) h a = h a"
  by (simp add: assert_type_v_def)

text \<open>
  What a registration of the instantiable variant does: on an allocated map it stores
  the entry and keeps every other one, on a \<^verbatim>\<open>nil\<close> map it panics.
\<close>

lemma RegisterRule_v_allocated:
  "RegisterRule_v \<lparr>rules_v = Some m, typeHandlers_v = hs\<rparr> n f
     = Return \<lparr>rules_v = Some (m(n \<mapsto> f)), typeHandlers_v = hs\<rparr>"
  by (simp add: RegisterRule_v_def map_assign_def)

lemma RegisterType_v_allocated:
  "RegisterType_v TypeOf \<lparr>rules_v = rs, typeHandlers_v = Some hm\<rparr> T h
     = Return \<lparr>rules_v = rs, typeHandlers_v = Some (hm(T \<mapsto> assert_type_v TypeOf T h))\<rparr>"
  by (simp add: RegisterType_v_def map_assign_def)

lemma RegisterRule_v_nil:
  "RegisterRule_v \<lparr>rules_v = None, typeHandlers_v = hs\<rparr> n f
     = Panic ''assignment to entry in nil map''"
  by (simp add: RegisterRule_v_def map_assign_def)

lemma RegisterType_v_nil:
  "RegisterType_v TypeOf \<lparr>rules_v = rs, typeHandlers_v = None\<rparr> T h
     = Panic ''assignment to entry in nil map''"
  by (simp add: RegisterType_v_def map_assign_def)

text \<open>
  \<^verbatim>\<open>New\<close> itself does not return: the rule map of \<^verbatim>\<open>&Validator{}\<close> is \<^verbatim>\<open>nil\<close> and the first
  \<^verbatim>\<open>RegisterRule\<close> assigns to an entry of it.
\<close>

lemma New_panics: "New = Panic ''assignment to entry in nil map''"
  by (simp add: New_def register_builtins_def RegisterRule_v_nil)

text \<open>
  C9. The property holds of the singleton variant, whose tables are made by \<^verbatim>\<open>make\<close>:
  \<^verbatim>\<open>RegisterRule\<close> changes the table \<^verbatim>\<open>rules\<close> at the name only, to the function
  registered, so a lookup right after gives that function, a later registration under
  the name replaces it, and the entries under other names and the type handlers stay;
  \<^verbatim>\<open>RegisterType\<close> does the same to \<^verbatim>\<open>typeHandlers\<close> with the closure that asserts the type
  and calls the handler, which is the handler on every value of that type. In the
  instantiable variant the code does not do what the property says: the two maps of a
  \<^verbatim>\<open>Validator\<close> are never made, so on the validator that \<^verbatim>\<open>&Validator{}\<close> is, the one
  \<^verbatim>\<open>New\<close> builds, \<^verbatim>\<open>RegisterRule\<close> and \<^verbatim>\<open>RegisterType\<close> panic for every key and function and
  \<^verbatim>\<open>New\<close> does not return. Only on maps that are allocated do they store the entry.
\<close>

theorem register_on_zero_Validator_panics:
  "RegisterRule_v \<lparr>rules_v = None, typeHandlers_v = None\<rparr> n fv
     = Panic ''assignment to entry in nil map''
   \<and> RegisterType_v TypeOf_v \<lparr>rules_v = None, typeHandlers_v = None\<rparr> T_v hv
     = Panic ''assignment to entry in nil map''
   \<and> New = Panic ''assignment to entry in nil map''
   \<and> rules (RegisterRule n f g) = (rules g)(n \<mapsto> f)
   \<and> typeHandlers (RegisterRule n f g) = typeHandlers g
   \<and> typeHandlers (RegisterType TypeOf T h g) = (typeHandlers g)(T \<mapsto> assert_type TypeOf T h)
   \<and> rules (RegisterType TypeOf T h g) = rules g
   \<and> assert_type TypeOf (TypeOf a) h a = h a
   \<and> RegisterRule_v \<lparr>rules_v = Some m, typeHandlers_v = hs\<rparr> n fv
     = Return \<lparr>rules_v = Some (m(n \<mapsto> fv)), typeHandlers_v = hs\<rparr>
   \<and> RegisterType_v TypeOf_v \<lparr>rules_v = rs, typeHandlers_v = Some hm\<rparr> T_v hv
     = Return \<lparr>rules_v = rs, typeHandlers_v = Some (hm(T_v \<mapsto> assert_type_v TypeOf_v T_v hv))\<rparr>
   \<and> assert_type_v TypeOf_v (TypeOf_v b) hv b = hv b"
  by (simp only: RegisterRule_v_nil RegisterType_v_nil New_panics RegisterRule_tables
        RegisterType_tables assert_type_same assert_type_v_same RegisterRule_v_allocated
        RegisterType_v_allocated simp_thms)

subsection \<open>\<^verbatim>\<open>isEmail\<close>\<close>

text \<open>What one pass of the loop body does to each flag.\<close>

lemma isEmail_step_flags:
  "ampIsThere (isEmail_step r f) = (ampIsThere f \<or> r = CHR ''@'')"
  "spacesThere (isEmail_step r f) = (spacesThere f \<or> r = CHR '' '' \<or> r = CHR '','')"
  "textBeforeAmp (isEmail_step r f) = (textBeforeAmp f \<or> (r \<noteq> CHR ''@'' \<and> \<not> ampIsThere f))"
  "textAfterAmp (isEmail_step r f)
     = (textAfterAmp f \<or> (r \<noteq> CHR ''@'' \<and> ampIsThere f \<and> r \<noteq> CHR ''.''))"
  "dotAfterAmp (isEmail_step r f) = (dotAfterAmp f \<or> (r \<noteq> CHR ''@'' \<and> ampIsThere f \<and> r = CHR ''.''))"
  "otherError (isEmail_step r f) = (otherError f \<or> (r = CHR ''@'' \<and> ampIsThere f))"
  by (simp_all add: isEmail_step_def Let_def)

text \<open>The flags after scanning on from a state in which the \<^verbatim>\<open>@\<close> has been seen.\<close>

lemma scan_after_amp:
  "ampIsThere f \<Longrightarrow>
   ampIsThere (fold isEmail_step xs f)
   \<and> textBeforeAmp (fold isEmail_step xs f) = textBeforeAmp f
   \<and> otherError (fold isEmail_step xs f) = (otherError f \<or> CHR ''@'' \<in> set xs)
   \<and> dotAfterAmp (fold isEmail_step xs f) = (dotAfterAmp f \<or> CHR ''.'' \<in> set xs)
   \<and> textAfterAmp (fold isEmail_step xs f)
       = (textAfterAmp f \<or> list_ex (\<lambda>c. c \<noteq> CHR ''@'' \<and> c \<noteq> CHR ''.'') xs)
   \<and> spacesThere (fold isEmail_step xs f)
       = (spacesThere f \<or> CHR '' '' \<in> set xs \<or> CHR '','' \<in> set xs)"
proof (induction xs arbitrary: f)
  case Nil
  then show ?case by simp
next
  case (Cons x xs)
  have "ampIsThere (isEmail_step x f)"
    using Cons.prems by (simp add: isEmail_step_flags)
  from Cons.IH [OF this] show ?case
    using Cons.prems by (simp add: isEmail_step_flags) blast
qed

text \<open>The flags after scanning on from a state in which no \<^verbatim>\<open>@\<close> has been seen.\<close>

lemma before_after_at_Cons:
  "before_at (CHR ''@'' # xs) = []" "after_at (CHR ''@'' # xs) = xs"
  "x \<noteq> CHR ''@'' \<Longrightarrow> before_at (x # xs) = x # before_at xs"
  "x \<noteq> CHR ''@'' \<Longrightarrow> after_at (x # xs) = after_at xs"
  by (simp_all add: before_at_def after_at_def)

lemma scan_before_amp:
  "\<not> ampIsThere f \<Longrightarrow>
   ampIsThere (fold isEmail_step xs f) = (CHR ''@'' \<in> set xs)
   \<and> textBeforeAmp (fold isEmail_step xs f) = (textBeforeAmp f \<or> before_at xs \<noteq> [])
   \<and> otherError (fold isEmail_step xs f) = (otherError f \<or> CHR ''@'' \<in> set (after_at xs))
   \<and> dotAfterAmp (fold isEmail_step xs f) = (dotAfterAmp f \<or> CHR ''.'' \<in> set (after_at xs))
   \<and> textAfterAmp (fold isEmail_step xs f)
       = (textAfterAmp f \<or> list_ex (\<lambda>c. c \<noteq> CHR ''@'' \<and> c \<noteq> CHR ''.'') (after_at xs))
   \<and> spacesThere (fold isEmail_step xs f)
       = (spacesThere f \<or> CHR '' '' \<in> set xs \<or> CHR '','' \<in> set xs)"
proof (induction xs arbitrary: f)
  case Nil
  then show ?case by (simp add: before_at_def after_at_def)
next
  case (Cons x xs)
  show ?case
  proof (cases "x = CHR ''@''")
    case True
    have "ampIsThere (isEmail_step x f)"
      by (simp add: isEmail_step_flags True)
    from scan_after_amp [OF this, of xs] show ?thesis
      using Cons.prems True by (simp add: isEmail_step_flags before_after_at_Cons)
  next
    case False
    have "\<not> ampIsThere (isEmail_step x f)"
      using Cons.prems False by (simp add: isEmail_step_flags)
    from Cons.IH [OF this] show ?thesis
      using Cons.prems False by (simp add: isEmail_step_flags before_after_at_Cons) blast
  qed
qed

lemma count_at_after_amp:
  "CHR ''@'' \<in> set s \<Longrightarrow> count_list s CHR ''@'' = Suc (count_list (after_at s) CHR ''@'')"
proof (induction s)
  case Nil
  then show ?case by simp
next
  case (Cons x s)
  then show ?case
    by (cases "x = CHR ''@''") (simp_all add: before_after_at_Cons)
qed

lemma exactly_one_at:
  "(count_list s CHR ''@'' = Suc 0) = (CHR ''@'' \<in> set s \<and> CHR ''@'' \<notin> set (after_at s))"
proof (cases "CHR ''@'' \<in> set s")
  case True
  then show ?thesis
    by (simp add: count_at_after_amp count_list_0_iff)
next
  case False
  then have "count_list s CHR ''@'' = 0"
    by (simp add: count_list_0_iff)
  with False show ?thesis by simp
qed

lemma no_at_text:
  "CHR ''@'' \<notin> set xs \<Longrightarrow>
   list_ex (\<lambda>c. c \<noteq> CHR ''@'' \<and> c \<noteq> CHR ''.'') xs = list_ex (\<lambda>c. c \<noteq> CHR ''.'') xs"
  by (induction xs) auto

lemma isEmail_scan_ok:
  "(spacesThere (isEmail_scan s) \<or> \<not> ampIsThere (isEmail_scan s)
      \<or> \<not> textAfterAmp (isEmail_scan s) \<or> \<not> textBeforeAmp (isEmail_scan s)
      \<or> \<not> dotAfterAmp (isEmail_scan s) \<or> otherError (isEmail_scan s)) = (\<not> scan_email_ok s)"
proof -
  have init: "\<not> ampIsThere email_flags_init" "\<not> spacesThere email_flags_init"
    "\<not> textBeforeAmp email_flags_init" "\<not> textAfterAmp email_flags_init"
    "\<not> dotAfterAmp email_flags_init" "\<not> otherError email_flags_init"
    by (simp_all add: email_flags_init_def)
  note flags = scan_before_amp [OF init(1), of s, folded isEmail_scan_def]
  show ?thesis
  proof (cases "CHR ''@'' \<in> set (after_at s)")
    case True
    with flags init show ?thesis
      by (simp add: scan_email_ok_def exactly_one_at)
  next
    case False
    with flags init no_at_text [OF False] show ?thesis
      by (simp add: scan_email_ok_def exactly_one_at) blast
  qed
qed

lemma isEmail_string:
  "isEmail (VString s # rest) = (if scan_email_ok s then Return None else Return (Some invalid_email))"
  using isEmail_scan_ok [of s] by (simp add: isEmail_def Let_def invalid_email_def)

text \<open>
  C3, as the specification states it, fails: the scan accepts \<^verbatim>\<open>a@b.\<close>, which has nothing
  after its \<^verbatim>\<open>.\<close>, so the stated condition does not hold of it and the stated example
  does not return an error.
\<close>

theorem isEmail_trailing_dot_counterexample:
  "isEmail [VString ''a@b.''] = Return None \<and> \<not> spec_email_ok ''a@b.''"
  by code_simp

text \<open>
  C3, amended. \<^verbatim>\<open>isEmail\<close> accepts a string if and only if it has exactly one \<^verbatim>\<open>@\<close>, at
  least one character before it, at least one \<^verbatim>\<open>.\<close> after it, at least one character
  other than \<^verbatim>\<open>.\<close> after the \<^verbatim>\<open>@\<close> (before or after the \<^verbatim>\<open>.\<close>), and no space or comma; any
  other string gets the one validation error. So \<^verbatim>\<open>a@b.c\<close> and \<^verbatim>\<open>a@b.\<close> pass, and
  \<^verbatim>\<open>ab.c\<close>, \<^verbatim>\<open>a@bc\<close> and \<^verbatim>\<open>a @b.c\<close> return the error.
\<close>

theorem isEmail_accepts_iff:
  "isEmail (VString s # rest) = (if scan_email_ok s then Return None else Return (Some invalid_email))
   \<and> isEmail [VString ''a@b.c''] = Return None
   \<and> isEmail [VString ''a@b.''] = Return None
   \<and> isEmail [VString ''ab.c''] = Return (Some invalid_email)
   \<and> isEmail [VString ''a@bc''] = Return (Some invalid_email)
   \<and> isEmail [VString ''a @b.c''] = Return (Some invalid_email)"
proof -
  have "scan_email_ok ''a@b.c''" "scan_email_ok ''a@b.''" "\<not> scan_email_ok ''ab.c''"
    "\<not> scan_email_ok ''a@bc''" "\<not> scan_email_ok ''a @b.c''"
    by (simp_all add: scan_email_ok_def before_at_def after_at_def)
  then show ?thesis
    by (simp add: isEmail_string)
qed

theorem isEmail_accepts_iff_witness:
  "scan_email_ok ''al@example.org'' \<and> isEmail [VString ''al@example.org'', VInt 3] = Return None
   \<and> \<not> scan_email_ok ''a@@b.c'' \<and> isEmail [VString ''a@@b.c''] = Return (Some invalid_email)"
proof -
  have ok: "scan_email_ok ''al@example.org''" and bad: "\<not> scan_email_ok ''a@@b.c''"
    by (simp_all add: scan_email_ok_def before_at_def after_at_def)
  show ?thesis
    using isEmail_accepts_iff [of "''al@example.org''" "[VInt 3]"]
      isEmail_accepts_iff [of "''a@@b.c''" "[]"] ok bad
    by simp
qed

subsection \<open>\<^verbatim>\<open>notEmpty\<close>\<close>

lemma TrimSpace_examples:
  "TrimSpace '''' = ''''" "TrimSpace ''   '' = ''''" "TrimSpace ''a'' = ''a''"
  by code_simp+

lemma TrimSpace_examples_Al: "TrimSpace ''Al'' = ''Al''"
  by code_simp

lemma notEmpty_Init_skips: "\<not> is_string p \<Longrightarrow> notEmpty_Init (p # ps) = notEmpty_Init ps"
  by (cases p) simp_all

lemma notEmpty_length_other: "\<not> kind_has_length v \<Longrightarrow> notEmpty_length p v = Return 0"
  by (induction p v rule: notEmpty_length.induct) simp_all

lemma notEmpty_New_other:
  "\<not> kind_has_length p \<Longrightarrow> notEmpty_New (p # ps) = Return (Some required_New)"
  by (simp add: notEmpty_length_other required_New_def)

text \<open>
  C4, as the specification states it, fails: the rule \<^verbatim>\<open>Init\<close> registers passes over an
  empty slice and an empty map, which are not strings, and returns no error.
\<close>

theorem notEmpty_Init_empty_slice_counterexample:
  "notEmpty_Init [VSlice []] = Return None \<and> notEmpty_Init [VMap []] = Return None"
  by simp

text \<open>
  C4, amended. Both rules return a validation error on the empty string and on a string
  of spaces, and both pass \<^verbatim>\<open>"a"\<close> and a slice of one element. On an empty slice and on
  an empty map the rule of \<^verbatim>\<open>New\<close> returns the error and the rule of \<^verbatim>\<open>Init\<close> passes. In
  general the rule of \<^verbatim>\<open>Init\<close> passes over every operand that is not a \<^verbatim>\<open>string\<close>, arrays,
  slices and maps among them, and the rule of \<^verbatim>\<open>New\<close> fails every operand whose kind is
  none of array, slice, map and string.
\<close>

theorem notEmpty_variants:
  "notEmpty_New [VString ''''] = Return (Some required_New)
   \<and> notEmpty_New [VString ''   ''] = Return (Some required_New)
   \<and> notEmpty_New [VSlice []] = Return (Some required_New)
   \<and> notEmpty_New [VMap []] = Return (Some required_New)
   \<and> notEmpty_New [VString ''a''] = Return None
   \<and> notEmpty_New [VSlice [VInt 1]] = Return None
   \<and> notEmpty_Init [VString ''''] = Return (Some required_Init)
   \<and> notEmpty_Init [VString ''   ''] = Return (Some required_Init)
   \<and> notEmpty_Init [VSlice []] = Return None
   \<and> notEmpty_Init [VMap []] = Return None
   \<and> notEmpty_Init [VString ''a''] = Return None
   \<and> notEmpty_Init [VSlice [VInt 1]] = Return None
   \<and> (\<not> is_string p \<longrightarrow> notEmpty_Init (p # ps) = notEmpty_Init ps)
   \<and> (\<not> kind_has_length p \<longrightarrow> notEmpty_New (p # ps) = Return (Some required_New))"
proof -
  have new_fails:
    "notEmpty_New [VString ''''] = Return (Some required_New)"
    "notEmpty_New [VString ''   ''] = Return (Some required_New)"
    "notEmpty_New [VSlice []] = Return (Some required_New)"
    "notEmpty_New [VMap []] = Return (Some required_New)"
    by (simp_all add: TrimSpace_examples required_New_def)
  have new_passes:
    "notEmpty_New [VString ''a''] = Return None"
    "notEmpty_New [VSlice [VInt 1]] = Return None"
    by (simp_all add: TrimSpace_examples)
  have init_fails:
    "notEmpty_Init [VString ''''] = Return (Some required_Init)"
    "notEmpty_Init [VString ''   ''] = Return (Some required_Init)"
    by (simp_all add: TrimSpace_examples required_Init_def)
  have init_passes:
    "notEmpty_Init [VSlice []] = Return None"
    "notEmpty_Init [VMap []] = Return None"
    "notEmpty_Init [VString ''a''] = Return None"
    "notEmpty_Init [VSlice [VInt 1]] = Return None"
    by (simp_all add: TrimSpace_examples)
  have skips: "\<not> is_string p \<longrightarrow> notEmpty_Init (p # ps) = notEmpty_Init ps"
    using notEmpty_Init_skips by blast
  have other: "\<not> kind_has_length p \<longrightarrow> notEmpty_New (p # ps) = Return (Some required_New)"
    using notEmpty_New_other by blast
  from new_fails new_passes init_fails init_passes skips other show ?thesis
    by blast
qed

theorem notEmpty_variants_witness:
  "\<not> is_string (VInt 7) \<and> notEmpty_Init [VInt 7, VString ''''] = Return (Some required_Init)
   \<and> \<not> kind_has_length (VInt 7) \<and> notEmpty_New [VInt 7, VString ''a''] = Return (Some required_New)"
proof -
  have init_fails: "notEmpty_Init [VString ''''] = Return (Some required_Init)"
    by (simp add: TrimSpace_examples required_Init_def)
  have not_string: "\<not> is_string (VInt 7)" and other_kind: "\<not> kind_has_length (VInt 7)"
    by simp_all
  note v1 = notEmpty_variants [of "VInt 7" "[VString '''']"]
  note v2 = notEmpty_variants [of "VInt 7" "[VString ''a'']"]
  from v1 not_string have "notEmpty_Init [VInt 7, VString ''''] = notEmpty_Init [VString '''']"
    by blast
  moreover from v2 other_kind
  have "notEmpty_New [VInt 7, VString ''a''] = Return (Some required_New)"
    by blast
  ultimately show ?thesis
    using init_fails not_string other_kind by simp
qed

subsection \<open>\<^verbatim>\<open>greaterThan\<close> and \<^verbatim>\<open>lessThan\<close>\<close>

lemma greaterThan_loop_passes:
  "(greaterThan_loop c i ops = None) = list_all (passes_greaterThan c) ops"
  by (induction ops arbitrary: i) (auto simp: passes_greaterThan_def split: option.splits)

lemma greaterThan_loop_first_failure:
  "list_all (passes_greaterThan c) pre \<Longrightarrow> operand_value x = Some v \<Longrightarrow> f64_le v c
     \<Longrightarrow> greaterThan_loop c i (pre @ x # post) = Some (Errorf_not_greater (i + length pre + 2) v c)"
  by (induction pre arbitrary: i) (auto simp: passes_greaterThan_def split: option.splits)

lemma greaterThan_Cons:
  "rest \<noteq> [] \<Longrightarrow> comparer_with_map first = Some c
     \<Longrightarrow> greaterThan (first # rest) = Return (greaterThan_loop c 0 rest)"
  by (cases rest) (simp_all add: greaterThan_def)

lemma f64_not_le_iff_lt: "v \<noteq> NaN \<Longrightarrow> c \<noteq> NaN \<Longrightarrow> (\<not> f64_le v c) = f64_lt c v"
  by (cases v; cases c) auto

lemma round_to_53_small: "n < 2 ^ 53 \<Longrightarrow> round_to_53 n = n"
  by (simp add: round_to_53_def)

lemma float64_of_int_exact: "\<bar>z\<bar> < 2 ^ 53 \<Longrightarrow> float64_of_int z = Finite (of_int z)"
proof (cases "z < 0")
  case True
  assume "\<bar>z\<bar> < 2 ^ 53"
  with True have "nat (- z) < 2 ^ 53"
    by (simp add: nat_less_iff)
  with True show ?thesis
    by (simp add: float64_of_int_def round_to_53_small)
next
  case False
  assume "\<bar>z\<bar> < 2 ^ 53"
  with False have "nat z < 2 ^ 53"
    by (simp add: nat_less_iff)
  with False show ?thesis
    by (simp add: float64_of_int_def round_to_53_small)
qed

lemma greaterThan_examples:
  "greaterThan [VInt 5, VInt 6] = Return None"
  "greaterThan [VInt 5, VInt 5] = Return (Some (Errorf_not_greater 2 (Finite 5) (Finite 5)))"
  "greaterThan [VInt 5, VInt 4] = Return (Some (Errorf_not_greater 2 (Finite 4) (Finite 5)))"
  "greaterThan [VString ''ab'', VString ''abc''] = Return None"
  by (simp_all add: greaterThan_def float64_of_int_def round_to_53_small)

text \<open>
  C5, as the specification states it, fails on NaN, a value of the supported kind
  \<^verbatim>\<open>float64\<close>: the rule passes it, since \<^verbatim>\<open>NaN <= 1\<close> is false, although it is not strictly
  greater than the comparer.
\<close>

theorem greaterThan_NaN_counterexample:
  "comparer_with_map (VFloat64 (Finite 1)) \<noteq> None \<and> operand_value (VFloat64 NaN) \<noteq> None
   \<and> greaterThan [VFloat64 (Finite 1), VFloat64 NaN] = Return None
   \<and> \<not> strictly_greater (Finite 1) (VFloat64 NaN)"
  by (simp add: greaterThan_def strictly_greater_def)

text \<open>
  C5, amended. The magnitude of a string, an array or a slice is its length and that of
  a number is its value, both as a \<^verbatim>\<open>float64\<close>, which is the integer itself when it is
  below \<open>2 ^ 53\<close> in magnitude. With a comparer of a supported kind and at least one
  compared operand, \<^verbatim>\<open>greaterThan\<close> passes if and only if every compared operand is of a
  supported kind and no magnitude is less than or equal to the comparer's, which is
  being strictly greater for magnitudes other than NaN. The first operand whose
  magnitude is less than or equal yields the error that carries its position, counted
  from 2 for the first compared operand, and both magnitudes. \<^verbatim>\<open>greaterThan(5, 6)\<close> and
  \<^verbatim>\<open>greaterThan("ab", "abc")\<close> pass; \<^verbatim>\<open>greaterThan(5, 5)\<close> and \<^verbatim>\<open>greaterThan(5, 4)\<close>
  fail.
\<close>

theorem greaterThan_passes_iff:
  "(comparer_with_map first = Some c \<and> rest \<noteq> []
      \<longrightarrow> (greaterThan (first # rest) = Return None) = list_all (passes_greaterThan c) rest)
   \<and> (comparer_with_map first = Some c \<and> list_all (passes_greaterThan c) pre
       \<and> operand_value x = Some v \<and> f64_le v c
      \<longrightarrow> greaterThan (first # pre @ x # post)
           = Return (Some (Errorf_not_greater (length pre + 2) v c)))
   \<and> (operand_value x = Some v \<and> v \<noteq> NaN \<and> c \<noteq> NaN
      \<longrightarrow> passes_greaterThan c x = strictly_greater c x)
   \<and> greaterThan [VInt 5, VInt 6] = Return None
   \<and> greaterThan [VInt 5, VInt 5] = Return (Some (Errorf_not_greater 2 (Finite 5) (Finite 5)))
   \<and> greaterThan [VInt 5, VInt 4] = Return (Some (Errorf_not_greater 2 (Finite 4) (Finite 5)))
   \<and> greaterThan [VString ''ab'', VString ''abc''] = Return None
   \<and> (\<bar>z\<bar> < 2 ^ 53 \<longrightarrow> float64_of_int z = Finite (of_int z))"
proof -
  have passes: "(greaterThan (first # rest) = Return None) = list_all (passes_greaterThan c) rest"
    if "comparer_with_map first = Some c \<and> rest \<noteq> []"
    using that by (simp add: greaterThan_Cons greaterThan_loop_passes)
  have fails: "greaterThan (first # pre @ x # post)
      = Return (Some (Errorf_not_greater (length pre + 2) v c))"
    if "comparer_with_map first = Some c \<and> list_all (passes_greaterThan c) pre
        \<and> operand_value x = Some v \<and> f64_le v c"
    using that greaterThan_loop_first_failure [of c pre x v 0 post]
    by (simp add: greaterThan_Cons)
  have strict: "passes_greaterThan c x = strictly_greater c x"
    if "operand_value x = Some v \<and> v \<noteq> NaN \<and> c \<noteq> NaN"
    using that by (simp add: passes_greaterThan_def strictly_greater_def f64_not_le_iff_lt)
  from passes fails strict greaterThan_examples float64_of_int_exact [of z] show ?thesis
    by blast
qed

theorem greaterThan_passes_iff_witness:
  "comparer_with_map (VInt 5) = Some (Finite 5) \<and> [VInt 6, VString ''abcdefg''] \<noteq> []
   \<and> list_all (passes_greaterThan (Finite 5)) [VInt 6, VString ''abcdefg'']
   \<and> greaterThan [VInt 5, VInt 6, VString ''abcdefg''] = Return None
   \<and> operand_value (VUint8 3) = Some (Finite 3) \<and> f64_le (Finite 3) (Finite 5)
   \<and> greaterThan [VInt 5, VInt 6, VString ''abcdefg'', VUint8 3, VBool True]
       = Return (Some (Errorf_not_greater 4 (Finite 3) (Finite 5)))
   \<and> passes_greaterThan (Finite 5) (VUint8 3) = strictly_greater (Finite 5) (VUint8 3)
   \<and> \<bar>- 7 :: int\<bar> < 2 ^ 53 \<and> float64_of_int (- 7) = Finite (- 7)"
proof -
  have small: "\<bar>- 7 :: int\<bar> < 2 ^ 53"
    by simp
  note g4 = greaterThan_passes_iff [THEN conjunct2, THEN conjunct2, THEN conjunct2,
      THEN conjunct2, THEN conjunct2, THEN conjunct2, THEN conjunct2, THEN mp, OF small]
  have c: "comparer_with_map (VInt 5) = Some (Finite 5)"
    by (simp add: float64_of_int_def round_to_53_small)
  have x: "operand_value (VUint8 3) = Some (Finite 3)"
    by (simp add: float64_of_int_def round_to_53_small)
  have pre: "list_all (passes_greaterThan (Finite 5)) [VInt 6, VString ''abcdefg'']"
    by (simp add: passes_greaterThan_def float64_of_int_def round_to_53_small)
  have le: "f64_le (Finite 3) (Finite 5)"
    by simp
  note g1 = greaterThan_passes_iff [THEN conjunct1, THEN mp,
      of "VInt 5" "Finite 5" "[VInt 6, VString ''abcdefg'']"]
  note g2 = greaterThan_passes_iff [THEN conjunct2, THEN conjunct1, THEN mp,
      of "VInt 5" "Finite 5" "[VInt 6, VString ''abcdefg'']" "VUint8 3" "Finite 3" "[VBool True]"]
  note g3 = greaterThan_passes_iff [THEN conjunct2, THEN conjunct2, THEN conjunct1, THEN mp,
      of "VUint8 3" "Finite 3" "Finite 5"]
  from g1 c pre have "greaterThan [VInt 5, VInt 6, VString ''abcdefg''] = Return None"
    by simp
  moreover from g2 c pre x le
  have "greaterThan [VInt 5, VInt 6, VString ''abcdefg'', VUint8 3, VBool True]
       = Return (Some (Errorf_not_greater 4 (Finite 3) (Finite 5)))"
    by simp
  moreover from g3 x
  have "passes_greaterThan (Finite 5) (VUint8 3) = strictly_greater (Finite 5) (VUint8 3)"
    by simp
  moreover from g4 have "float64_of_int (- 7) = Finite (- 7)"
    by simp
  ultimately show ?thesis
    using c x pre le small by simp
qed

lemma lessThan_Cons:
  "rest \<noteq> [] \<Longrightarrow> operand_value first = Some c
     \<Longrightarrow> lessThan_rule (first # rest) = Return (lessThan_loop c 0 rest)"
  by (cases rest) (simp_all add: lessThan_rule_def)

lemma bit_length_collapse:
  "bit_length 9007199254740992 = 54" "bit_length 9007199254740993 = 54"
  by (simp_all add: bit_length.simps)

lemma round_to_53_collapse:
  "round_to_53 9007199254740992 = 9007199254740992"
  "round_to_53 9007199254740993 = 9007199254740992"
  by (simp_all add: round_to_53_def bit_length_collapse)

lemma float64_of_int_collapse:
  "float64_of_int 9007199254740992 = Finite 9007199254740992"
  "float64_of_int 9007199254740993 = Finite 9007199254740992"
  by (simp_all add: float64_of_int_def round_to_53_collapse)

lemma sint_collapse:
  "sint (9007199254740992 :: 64 word) = 9007199254740992"
  "sint (9007199254740993 :: 64 word) = 9007199254740993"
  by simp_all

text \<open>
  C10. \<^verbatim>\<open>greaterThan\<close> and \<^verbatim>\<open>lessThan\<close> compare the \<^verbatim>\<open>float64\<close> conversions of their
  operands, so two \<^verbatim>\<open>int64\<close> values above \<open>2 ^ 53\<close> that convert to the same
  \<^verbatim>\<open>float64\<close> are not told apart: there are \<open>a < b\<close> with \<^verbatim>\<open>greaterThan(a, b)\<close> returning
  the validation error, and \<^verbatim>\<open>lessThan(b, a)\<close> as well. The pair shown is \<open>2 ^ 53\<close> and
  \<open>2 ^ 53 + 1\<close>.
\<close>

theorem float64_widening_collapses:
  "\<exists>a b :: 64 word.
     sint a < sint b
     \<and> float64_of_int (sint a) = float64_of_int (sint b)
     \<and> greaterThan [VInt64 a, VInt64 b]
         = Return (Some (Errorf_not_greater 2 (float64_of_int (sint b)) (float64_of_int (sint a))))
     \<and> lessThan_rule [VInt64 b, VInt64 a]
         = Return (Some (Errorf_not_less 2 (float64_of_int (sint a)) (float64_of_int (sint b))))"
proof (intro exI conjI)
  let ?a = "9007199254740992 :: 64 word" and ?b = "9007199254740993 :: 64 word"
  show "sint ?a < sint ?b"
    by (simp add: sint_collapse)
  show "float64_of_int (sint ?a) = float64_of_int (sint ?b)"
    by (simp add: sint_collapse float64_of_int_collapse)
  show "greaterThan [VInt64 ?a, VInt64 ?b]
      = Return (Some (Errorf_not_greater 2 (float64_of_int (sint ?b)) (float64_of_int (sint ?a))))"
    by (simp add: greaterThan_Cons sint_collapse float64_of_int_collapse)
  show "lessThan_rule [VInt64 ?b, VInt64 ?a]
      = Return (Some (Errorf_not_less 2 (float64_of_int (sint ?a)) (float64_of_int (sint ?b))))"
    by (simp add: lessThan_Cons sint_collapse float64_of_int_collapse)
qed

subsection \<open>Setup\<close>

lemma Init_rules:
  "rules (Init g) ''notEmpty'' = Some (pure_rule notEmpty_Init)"
  "rules (Init g) ''greaterThan'' = Some (pure_rule greaterThan)"
  "rules (Init g) ''lessThan'' = Some (pure_rule lessThan_rule)"
  "rules (Init g) ''isEmail'' = rules g ''isEmail''"
  "typeHandlers (Init g) = typeHandlers g"
  by (simp_all add: Init_def RegisterRule_def)

lemma Check_registered_pure:
  "err ctx = None \<Longrightarrow> rs n = Some (pure_rule r)
     \<Longrightarrow> Check rs n ps ctx w
         = (case r ps of Return e \<Rightarrow> (Return (), ctx\<lparr>err := e\<rparr>, w) | Panic m \<Rightarrow> (Panic m, ctx, w))"
  by (simp add: Check_def pure_rule_def split: outcome.splits)

lemma register_builtins_allocated:
  "rules_v v = Some m \<Longrightarrow>
     register_builtins v
       = Return (v\<lparr>rules_v := Some (m(''notEmpty'' \<mapsto> pure_rule notEmpty_New,
                                       ''greaterThan'' \<mapsto> pure_rule greaterThan,
                                       ''lessThan'' \<mapsto> pure_rule lessThan_rule,
                                       ''isEmail'' \<mapsto> pure_rule isEmail))\<rparr>)"
  by (simp add: register_builtins_def RegisterRule_v_def map_assign_def)

text \<open>
  C8, as the specification states it, fails for \<^verbatim>\<open>Init\<close>: it registers no \<^verbatim>\<open>isEmail\<close>, so
  after \<^verbatim>\<open>Init\<close> on the empty tables a \<^verbatim>\<open>Check\<close> naming \<^verbatim>\<open>isEmail\<close> panics as for any
  unregistered rule.
\<close>

theorem Init_without_isEmail_counterexample:
  "rules (Init example_globals) ''isEmail'' = None
   \<and> Check (rules (Init example_globals)) ''isEmail'' [VString ''a@b.c''] \<lparr>err = None\<rparr> 0
       = (Panic ''Rule isEmail has not been registered'', \<lparr>err = None\<rparr>, 0)"
  by (simp add: Init_def RegisterRule_def example_globals_def globals_init_def Check_def)

text \<open>
  C8, amended. After \<^verbatim>\<open>Init\<close> the three rules \<^verbatim>\<open>notEmpty\<close>, \<^verbatim>\<open>greaterThan\<close> and \<^verbatim>\<open>lessThan\<close>
  are registered, so \<^verbatim>\<open>Check\<close> with one of these names on a context without a stored
  error calls the rule; what is registered under \<^verbatim>\<open>isEmail\<close> is what was there before
  \<^verbatim>\<open>Init\<close>. The four registrations of \<^verbatim>\<open>New\<close>, on a validator whose rule map is allocated,
  return a validator in which all four names resolve to the built-in rules.
\<close>

theorem builtin_rules_registered:
  "rules (Init g) ''notEmpty'' = Some (pure_rule notEmpty_Init)
   \<and> rules (Init g) ''greaterThan'' = Some (pure_rule greaterThan)
   \<and> rules (Init g) ''lessThan'' = Some (pure_rule lessThan_rule)
   \<and> rules (Init g) ''isEmail'' = rules g ''isEmail''
   \<and> (err ctx = None \<and> rules (Init g) n = Some (pure_rule r)
      \<longrightarrow> Check (rules (Init g)) n ps ctx w
           = (case r ps of
                Return e \<Rightarrow> (Return (), ctx\<lparr>err := e\<rparr>, w)
              | Panic m \<Rightarrow> (Panic m, ctx, w)))
   \<and> (rules_v v \<noteq> None
      \<longrightarrow> (\<exists>v'. register_builtins v = Return v'
             \<and> map_index (rules_v v') ''notEmpty'' = Some (pure_rule notEmpty_New)
             \<and> map_index (rules_v v') ''greaterThan'' = Some (pure_rule greaterThan)
             \<and> map_index (rules_v v') ''lessThan'' = Some (pure_rule lessThan_rule)
             \<and> map_index (rules_v v') ''isEmail'' = Some (pure_rule isEmail)))"
proof -
  have checks: "Check (rules (Init g)) n ps ctx w
      = (case r ps of Return e \<Rightarrow> (Return (), ctx\<lparr>err := e\<rparr>, w) | Panic m \<Rightarrow> (Panic m, ctx, w))"
    if "err ctx = None \<and> rules (Init g) n = Some (pure_rule r)"
    using that by (simp add: Check_registered_pure)
  have all_four: "\<exists>v'. register_builtins v = Return v'
             \<and> map_index (rules_v v') ''notEmpty'' = Some (pure_rule notEmpty_New)
             \<and> map_index (rules_v v') ''greaterThan'' = Some (pure_rule greaterThan)
             \<and> map_index (rules_v v') ''lessThan'' = Some (pure_rule lessThan_rule)
             \<and> map_index (rules_v v') ''isEmail'' = Some (pure_rule isEmail)"
    if "rules_v v \<noteq> None"
  proof -
    from that obtain m where "rules_v v = Some m"
      by blast
    then show ?thesis
      by (simp add: register_builtins_allocated map_index_def)
  qed
  from checks all_four Init_rules(1-4) [of g] show ?thesis
    by blast
qed

theorem builtin_rules_registered_witness:
  "err \<lparr>err = None\<rparr> = None
   \<and> rules (Init example_globals) ''notEmpty'' = Some (pure_rule notEmpty_Init)
   \<and> Check (rules (Init example_globals)) ''notEmpty'' [VString ''Al''] \<lparr>err = None\<rparr> 0
       = (Return (), \<lparr>err = None\<rparr>, 0)
   \<and> rules_v example_validator \<noteq> None
   \<and> (\<exists>v'. register_builtins example_validator = Return v'
         \<and> map_index (rules_v v') ''isEmail'' = Some (pure_rule isEmail))"
proof -
  have ok: "err \<lparr>err = None\<rparr> = None"
    by simp
  have alloc: "rules_v example_validator \<noteq> None"
    by (simp add: example_validator_def)
  have passes: "notEmpty_Init [VString ''Al''] = Return None"
    by (simp add: TrimSpace_examples_Al)
  note b = builtin_rules_registered
    [of example_globals "\<lparr>err = None\<rparr>" "''notEmpty''" notEmpty_Init "[VString ''Al'']" "0::nat"
        example_validator]
  from b have reg: "rules (Init example_globals) ''notEmpty'' = Some (pure_rule notEmpty_Init)"
    by blast
  with b ok passes
  have "Check (rules (Init example_globals)) ''notEmpty'' [VString ''Al''] \<lparr>err = None\<rparr> 0
       = (Return (), \<lparr>err = None\<rparr>, 0)"
    by simp
  moreover from b alloc
  have "\<exists>v'. register_builtins example_validator = Return v'
         \<and> map_index (rules_v v') ''isEmail'' = Some (pure_rule isEmail)"
    by blast
  ultimately show ?thesis
    using ok reg alloc by blast
qed

subsection \<open>\<^verbatim>\<open>ValidateStruct\<close>\<close>

lemma run_step_from_failed:
  "err ctx = Some e \<Longrightarrow>
     run_step rs st ctx w = (Return (), ctx\<lparr>err := Some (retext e [st])\<rparr>, w)"
  by (cases st) (simp_all add: Check_def Must_def MustErr_def Message_def)

lemma retext_Cons: "retext e (st # sts) = retext (retext e [st]) sts"
  by (cases st) simp_all

lemma run_chain_from_failed:
  "err ctx = Some e \<Longrightarrow>
     run_chain rs sts ctx w = (Return (), ctx\<lparr>err := Some (retext e sts)\<rparr>, w)"
proof (induction sts arbitrary: ctx e)
  case Nil
  then show ?case by simp
next
  case (Cons st sts)
  have "err (ctx\<lparr>err := Some (retext e [st])\<rparr>) = Some (retext e [st])"
    by simp
  from Cons.IH [OF this] show ?case
    using Cons.prems retext_Cons [of e st sts] by (simp add: run_step_from_failed)
qed

lemma run_chain_from_ok:
  "run_chain rs sts \<lparr>err = None\<rparr> w = (Return (), ctx', w')
     \<Longrightarrow> err ctx' = stored_result rs sts w"
proof (induction sts arbitrary: w)
  case Nil
  then show ?case by (auto simp: stored_result_def)
next
  case (Cons st sts)
  obtain out ctx1 w1 where step: "run_step rs st \<lparr>err = None\<rparr> w = (out, ctx1, w1)"
    by (cases "run_step rs st \<lparr>err = None\<rparr> w") auto
  show ?case
  proof (cases out)
    case (Panic m)
    with step Cons.prems show ?thesis by simp
  next
    case (Return u)
    show ?thesis
    proof (cases "err ctx1")
      case None
      then have "ctx1 = \<lparr>err = None\<rparr>"
        by (cases ctx1) simp
      with step Return Cons.prems have "run_chain rs sts \<lparr>err = None\<rparr> w1 = (Return (), ctx', w')"
        by simp
      from Cons.IH [OF this] show ?thesis
        using step Return None by (simp add: stored_result_def)
    next
      case (Some e)
      from run_chain_from_failed [OF this, of rs sts w1] step Return Cons.prems
      have "err ctx' = Some (retext e sts)"
        by auto
      then show ?thesis
        using step Return Some by (simp add: stored_result_def)
    qed
  qed
qed

lemma ValidateStruct_returns:
  "typeHandlers g (TypeOf s) = Some handler
     \<Longrightarrow> handler s (rules g) \<lparr>err = None\<rparr> w = (Return (), ctx', w')
     \<Longrightarrow> ValidateStruct TypeOf Name g s w = (Return (err ctx'), w')"
  by (simp add: ValidateStruct_def)

lemma retext_no_message: "list_all (\<lambda>st. \<not> is_message st) sts \<Longrightarrow> retext e sts = e"
  by (induction e sts rule: retext.induct) (simp_all add: is_message_def)

lemma first_failure_rest_suffix:
  "first_failure_rest rs sts w = Some (e, rest) \<Longrightarrow> \<exists>pre. sts = pre @ rest"
proof (induction sts arbitrary: w)
  case Nil
  then show ?case by simp
next
  case (Cons st sts)
  obtain out ctx1 w1 where step: "run_step rs st \<lparr>err = None\<rparr> w = (out, ctx1, w1)"
    by (cases "run_step rs st \<lparr>err = None\<rparr> w") auto
  show ?case
  proof (cases "out")
    case (Panic m)
    with step Cons.prems show ?thesis by simp
  next
    case (Return u)
    show ?thesis
    proof (cases "err ctx1")
      case None
      with step Return Cons.prems have "first_failure_rest rs sts w1 = Some (e, rest)"
        by simp
      from Cons.IH [OF this] obtain pre where "sts = pre @ rest" ..
      then have "st # sts = (st # pre) @ rest" by simp
      then show ?thesis ..
    next
      case (Some e')
      with step Return Cons.prems have "rest = sts" by simp
      then have "st # sts = [st] @ rest" by simp
      then show ?thesis ..
    qed
  qed
qed

lemma stored_result_no_message:
  assumes "list_all (\<lambda>st. \<not> is_message st) sts"
  shows "stored_result rs sts w = first_failure rs sts w"
proof (cases "first_failure_rest rs sts w")
  case None
  then show ?thesis by (simp add: stored_result_def first_failure_def)
next
  case (Some p)
  obtain e rest where p: "p = (e, rest)" by (cases p)
  from Some p have "first_failure_rest rs sts w = Some (e, rest)"
    by simp
  from first_failure_rest_suffix [OF this] obtain pre where "sts = pre @ rest" ..
  with assms have "list_all (\<lambda>st. \<not> is_message st) rest"
    by simp
  then have "retext e rest = e" by (rule retext_no_message)
  with Some p show ?thesis by (simp add: stored_result_def first_failure_def)
qed

lemma person_rules:
  "rules person_globals ''notEmpty'' = Some (pure_rule notEmpty_Init)"
  "rules person_globals ''greaterThan'' = Some (pure_rule greaterThan)"
  "typeHandlers person_globals ''Person''
     = Some (assert_type example_TypeOf ''Person'' (chain_handler person_body))"
  by (simp_all add: person_globals_def RegisterType_def Init_rules)

lemma person_chain_nameless:
  "run_chain (rules person_globals) (person_body ('''', 5)) \<lparr>err = None\<rparr> 0
     = (Return (), \<lparr>err = Some (errors_New ''age must be positive'')\<rparr>, 0)"
  by (simp add: person_body_def Check_def Message_def person_rules pure_rule_def
        TrimSpace_examples)

text \<open>
  C7, as the specification states it, fails on the specification's own end-to-end
  example: for a person without a name, the first check fails and the check of the age
  is not made, yet \<^verbatim>\<open>ValidateStruct\<close> returns the text the handler gave for the age,
  which is neither the error of the first failure nor the text given for it.
\<close>

theorem ValidateStruct_first_failure_counterexample:
  "ValidateStruct example_TypeOf example_Name person_globals ('''', 5) 0
     = (Return (Some (errors_New ''age must be positive'')), 0)
   \<and> first_failure (rules person_globals) (person_body ('''', 5)) 0 = Some required_Init
   \<and> Some (errors_New ''age must be positive'') \<noteq> Some required_Init
   \<and> Some (errors_New ''age must be positive'') \<noteq> Some (errors_New ''name required'')"
proof -
  have "ValidateStruct example_TypeOf example_Name person_globals ('''', 5) 0
     = (Return (Some (errors_New ''age must be positive'')), 0)"
    using person_chain_nameless
    by (simp add: ValidateStruct_def person_rules example_TypeOf_def assert_type_def
          chain_handler_def)
  moreover have "first_failure (rules person_globals) (person_body ('''', 5)) 0 = Some required_Init"
    by (simp add: first_failure_def person_body_def Check_def person_rules pure_rule_def
          TrimSpace_examples required_Init_def)
  ultimately show ?thesis
    by (simp add: required_Init_def)
qed

text \<open>
  C7, amended. \<^verbatim>\<open>ValidateStruct\<close> looks the type of the value up in the table of handlers,
  runs the handler found on the value and a fresh context without a stored error, and
  returns the stored error the handler leaves. For a handler that is a chain of calls
  on the context and does not panic, that is \<^verbatim>\<open>nil\<close> when no call failed; otherwise it is
  the error of the first call that failed, with the text of the last \<^verbatim>\<open>Message\<close> called
  after that failure in its place if there is one. For a chain without \<^verbatim>\<open>Message\<close> it
  is the error of the first failure.
\<close>

theorem ValidateStruct_returns_stored_result:
  "(typeHandlers g (TypeOf s) = Some handler
      \<and> handler s (rules g) \<lparr>err = None\<rparr> w = (Return (), ctx', w')
      \<longrightarrow> ValidateStruct TypeOf Name g s w = (Return (err ctx'), w'))
   \<and> (typeHandlers g (TypeOf s) = Some (assert_type TypeOf (TypeOf s) (chain_handler body))
      \<and> run_chain (rules g) (body s) \<lparr>err = None\<rparr> w = (Return (), ctx', w')
      \<longrightarrow> ValidateStruct TypeOf Name g s w = (Return (stored_result (rules g) (body s) w), w'))
   \<and> (stored_result rs sts w = None) = (first_failure rs sts w = None)
   \<and> (list_all (\<lambda>st. \<not> is_message st) sts \<longrightarrow> stored_result rs sts w = first_failure rs sts w)"
proof -
  have general: "ValidateStruct TypeOf Name g s w = (Return (err ctx'), w')"
    if "typeHandlers g (TypeOf s) = Some handler
        \<and> handler s (rules g) \<lparr>err = None\<rparr> w = (Return (), ctx', w')"
    using that by (simp add: ValidateStruct_returns)
  have chain: "ValidateStruct TypeOf Name g s w = (Return (stored_result (rules g) (body s) w), w')"
    if h: "typeHandlers g (TypeOf s) = Some (assert_type TypeOf (TypeOf s) (chain_handler body))
        \<and> run_chain (rules g) (body s) \<lparr>err = None\<rparr> w = (Return (), ctx', w')"
  proof -
    from h have "assert_type TypeOf (TypeOf s) (chain_handler body) s (rules g) \<lparr>err = None\<rparr> w
        = (Return (), ctx', w')"
      by (simp add: assert_type_def chain_handler_def)
    with h have "ValidateStruct TypeOf Name g s w = (Return (err ctx'), w')"
      by (simp add: ValidateStruct_returns)
    moreover from h have "err ctx' = stored_result (rules g) (body s) w"
      by (simp add: run_chain_from_ok)
    ultimately show ?thesis by simp
  qed
  have none: "(stored_result rs sts w = None) = (first_failure rs sts w = None)"
    by (simp add: stored_result_def first_failure_def)
  from general chain none stored_result_no_message [of sts rs w] show ?thesis
    by blast
qed

theorem ValidateStruct_returns_stored_result_witness:
  "typeHandlers person_globals (example_TypeOf (''Al'', 5))
     = Some (assert_type example_TypeOf (example_TypeOf (''Al'', 5)) (chain_handler person_body))
   \<and> run_chain (rules person_globals) (person_body (''Al'', 5)) \<lparr>err = None\<rparr> 0
       = (Return (), \<lparr>err = None\<rparr>, 0)
   \<and> ValidateStruct example_TypeOf example_Name person_globals (''Al'', 5) 0 = (Return None, 0)
   \<and> run_chain (rules person_globals) (person_body (''Al'', - 1)) \<lparr>err = None\<rparr> 0
       = (Return (), \<lparr>err = Some (errors_New ''age must be positive'')\<rparr>, 0)
   \<and> ValidateStruct example_TypeOf example_Name person_globals (''Al'', - 1) 0
       = (Return (Some (errors_New ''age must be positive'')), 0)
   \<and> list_all (\<lambda>st. \<not> is_message st) [CheckStep ''notEmpty'' [VString ''''] :: nat step]
   \<and> stored_result (rules person_globals) [CheckStep ''notEmpty'' [VString '''']] 0
       = first_failure (rules person_globals) [CheckStep ''notEmpty'' [VString '''']] 0
   \<and> first_failure (rules person_globals) [CheckStep ''notEmpty'' [VString '''']] 0
       = Some required_Init"
proof -
  have ty: "example_TypeOf (''Al'', 5) = ''Person''" "example_TypeOf (''Al'', - 1) = ''Person''"
    by (simp_all add: example_TypeOf_def)
  have handler5: "typeHandlers person_globals (example_TypeOf (''Al'', 5))
     = Some (assert_type example_TypeOf (example_TypeOf (''Al'', 5)) (chain_handler person_body))"
    and handler1: "typeHandlers person_globals (example_TypeOf (''Al'', - 1))
     = Some (assert_type example_TypeOf (example_TypeOf (''Al'', - 1)) (chain_handler person_body))"
    by (simp_all add: ty person_rules)
  have zero: "float64_of_int 0 = Finite 0" and five: "float64_of_int 5 = Finite 5"
    and minus: "float64_of_int (- 1) = Finite (- 1)"
    by (simp_all add: float64_of_int_def round_to_53_small)
  have run5: "run_chain (rules person_globals) (person_body (''Al'', 5)) \<lparr>err = None\<rparr> 0
       = (Return (), \<lparr>err = None\<rparr>, 0)"
    by (simp add: person_body_def Check_def Message_def person_rules pure_rule_def
          TrimSpace_examples_Al greaterThan_def zero five)
  have run1: "run_chain (rules person_globals) (person_body (''Al'', - 1)) \<lparr>err = None\<rparr> 0
       = (Return (), \<lparr>err = Some (errors_New ''age must be positive'')\<rparr>, 0)"
    by (simp add: person_body_def Check_def Message_def person_rules pure_rule_def
          TrimSpace_examples_Al greaterThan_def zero minus)
  have stored5: "stored_result (rules person_globals) (person_body (''Al'', 5)) 0 = None"
    by (simp add: stored_result_def person_body_def Check_def Message_def person_rules
          pure_rule_def TrimSpace_examples_Al greaterThan_def zero five)
  have stored1: "stored_result (rules person_globals) (person_body (''Al'', - 1)) 0
      = Some (errors_New ''age must be positive'')"
    by (simp add: stored_result_def person_body_def Check_def Message_def person_rules
          pure_rule_def TrimSpace_examples_Al greaterThan_def zero minus)
  have plain: "list_all (\<lambda>st. \<not> is_message st) [CheckStep ''notEmpty'' [VString ''''] :: nat step]"
    by (simp add: is_message_def)
  have first: "first_failure (rules person_globals) [CheckStep ''notEmpty'' [VString '''']] 0
       = Some required_Init"
    by (simp add: first_failure_def Check_def person_rules pure_rule_def TrimSpace_examples
          required_Init_def)
  note chain = ValidateStruct_returns_stored_result [THEN conjunct2, THEN conjunct1, THEN mp]
  note plain_chain = ValidateStruct_returns_stored_result
    [THEN conjunct2, THEN conjunct2, THEN conjunct2, THEN mp]
  from chain [of person_globals example_TypeOf "(''Al'', 5)" person_body "0::nat"
      "\<lparr>err = None\<rparr>" "0::nat" example_Name] handler5 run5 stored5
  have "ValidateStruct example_TypeOf example_Name person_globals (''Al'', 5) 0 = (Return None, 0)"
    by simp
  moreover
  from chain [of person_globals example_TypeOf "(''Al'', - 1)" person_body "0::nat"
      "\<lparr>err = Some (errors_New ''age must be positive'')\<rparr>" "0::nat" example_Name]
    handler1 run1 stored1
  have "ValidateStruct example_TypeOf example_Name person_globals (''Al'', - 1) 0
       = (Return (Some (errors_New ''age must be positive'')), 0)"
    by simp
  moreover
  from plain_chain [OF plain, of "rules person_globals" "0::nat"]
  have "stored_result (rules person_globals) [CheckStep ''notEmpty'' [VString '''']] 0
       = first_failure (rules person_globals) [CheckStep ''notEmpty'' [VString '''']] 0" .
  ultimately show ?thesis
    using handler5 run5 run1 plain first by blast
qed

subsection \<open>Panics\<close>

lemma Check_unregistered:
  "err ctx = None \<Longrightarrow> rs n = None
     \<Longrightarrow> Check rs n ps ctx w = (Panic (''Rule '' @ n @ '' has not been registered''), ctx, w)"
  by (simp add: Check_def)

lemma Check_rule_panics:
  "err ctx = None \<Longrightarrow> rs n = Some rule \<Longrightarrow> rule ps w = (Panic m, w')
     \<Longrightarrow> Check rs n ps ctx w = (Panic m, ctx, w')"
  by (simp add: Check_def)

lemma Check_v_nil_validator:
  "err_v c = None \<Longrightarrow> validator c = None
     \<Longrightarrow> Check_v n ps c w
         = (Panic ''runtime error: invalid memory address or nil pointer dereference'', c, w)"
  by (simp add: Check_v_def)

lemma Check_v_unregistered:
  "err_v c = None \<Longrightarrow> validator c = Some v \<Longrightarrow> map_index (rules_v v) n = None
     \<Longrightarrow> Check_v n ps c w
         = (Panic (''Rule '' @ n @ '' has not been registered to specified validator''), c, w)"
  by (simp add: Check_v_def)

lemma Check_v_rule_panics:
  "err_v c = None \<Longrightarrow> validator c = Some v \<Longrightarrow> map_index (rules_v v) n = Some rule
     \<Longrightarrow> rule ps w = (Panic m, w') \<Longrightarrow> Check_v n ps c w = (Panic m, c, w')"
  by (simp add: Check_v_def)

lemma ValidateStruct_unregistered:
  "typeHandlers g (TypeOf s) = None
     \<Longrightarrow> ValidateStruct TypeOf Name g s w
         = (Panic (''Type '' @ [CHR 0x22] @ Name (TypeOf s) @ [CHR 0x22]
                    @ '' Hasn't been registered with RegisterType''), w)"
  by (simp add: ValidateStruct_def)

lemma ValidateStruct_handler_panics:
  "typeHandlers g (TypeOf s) = Some handler
     \<Longrightarrow> handler s (rules g) \<lparr>err = None\<rparr> w = (Panic m, ctx', w')
     \<Longrightarrow> ValidateStruct TypeOf Name g s w = (Panic m, w')"
  by (simp add: ValidateStruct_def)

lemma comparison_arity:
  "length ps < 2 \<Longrightarrow>
     greaterThan ps
       = Panic (''greaterThan: expected at least 2 parameters, got '' @ digits (length ps))
     \<and> lessThan_rule ps
       = Panic (''lessThan: expected at least 2 parameters, got '' @ digits (length ps))"
  by (simp add: greaterThan_def lessThan_rule_def)

lemma isEmail_not_string:
  "\<not> is_string p \<Longrightarrow> isEmail (p # rest) = Panic ''Parameter passed to email rule is not a string''"
  by (cases p) (simp_all add: isEmail_def)

text \<open>A call on the context that panics leaves the context as it was.\<close>

lemma run_step_panic_keeps:
  "run_step rs st ctx w = (Panic m, ctx', w') \<Longrightarrow> ctx' = ctx"
  by (cases st)
    (auto simp: Check_def Must_def MustErr_def Message_def
          split: if_splits option.splits prod.splits outcome.splits)

lemma run_chain_append:
  "run_chain rs pre ctx w = (Return (), ctx1, w1)
     \<Longrightarrow> run_chain rs (pre @ rest) ctx w = run_chain rs rest ctx1 w1"
proof (induction pre arbitrary: ctx w)
  case Nil
  then show ?case by simp
next
  case (Cons st pre)
  obtain out c2 w2 where step: "run_step rs st ctx w = (out, c2, w2)"
    by (cases "run_step rs st ctx w") auto
  show ?case
  proof (cases out)
    case (Panic m)
    with step Cons.prems show ?thesis by simp
  next
    case (Return u)
    with step Cons.prems have "run_chain rs pre c2 w2 = (Return (), ctx1, w1)"
      by simp
    from Cons.IH [OF this] show ?thesis
      using step Return by simp
  qed
qed

lemma run_chain_step_panics:
  "run_chain rs pre ctx w = (Return (), ctx1, w1)
     \<Longrightarrow> run_step rs st ctx1 w1 = (Panic m, ctx2, w2)
     \<Longrightarrow> run_chain rs (pre @ st # post) ctx w = (Panic m, ctx1, w2)"
proof -
  assume pre: "run_chain rs pre ctx w = (Return (), ctx1, w1)"
    and st: "run_step rs st ctx1 w1 = (Panic m, ctx2, w2)"
  from st have "ctx2 = ctx1"
    by (rule run_step_panic_keeps)
  with st show ?thesis
    by (simp add: run_chain_append [OF pre])
qed

lemma ValidateStruct_chain_panics:
  "typeHandlers g (TypeOf s) = Some (assert_type TypeOf (TypeOf s) (chain_handler body))
     \<Longrightarrow> body s = pre @ st # post
     \<Longrightarrow> run_chain (rules g) pre \<lparr>err = None\<rparr> w = (Return (), ctx1, w1)
     \<Longrightarrow> run_step (rules g) st ctx1 w1 = (Panic m, ctx2, w2)
     \<Longrightarrow> ValidateStruct TypeOf Name g s w = (Panic m, w2)"
proof -
  assume h: "typeHandlers g (TypeOf s) = Some (assert_type TypeOf (TypeOf s) (chain_handler body))"
    and b: "body s = pre @ st # post"
    and pre: "run_chain (rules g) pre \<lparr>err = None\<rparr> w = (Return (), ctx1, w1)"
    and st: "run_step (rules g) st ctx1 w1 = (Panic m, ctx2, w2)"
  from run_chain_step_panics [OF pre st, of post] b
  have "assert_type TypeOf (TypeOf s) (chain_handler body) s (rules g) \<lparr>err = None\<rparr> w
      = (Panic m, ctx1, w2)"
    by (simp add: assert_type_def chain_handler_def)
  with h show ?thesis
    by (rule ValidateStruct_handler_panics)
qed

text \<open>
  C6. A contract violation is a panic and never the stored result. On a context
  without a stored error, the state in which \<^verbatim>\<open>Check\<close> resolves the name at all,
  \<^verbatim>\<open>Check\<close> with a name that is not registered panics, in both variants, and so does
  \<^verbatim>\<open>Check\<close> of the instantiable variant on a context without a validator.
  \<^verbatim>\<open>ValidateStruct\<close> panics on a value whose type has no handler. \<^verbatim>\<open>greaterThan\<close> and
  \<^verbatim>\<open>lessThan\<close> panic on fewer than two arguments, and \<^verbatim>\<open>isEmail\<close> on no argument and on
  a first argument that is not a \<^verbatim>\<open>string\<close>. A panic of a rule is the panic of the
  \<^verbatim>\<open>Check\<close> that called it, in both variants; a call on the context that panics leaves
  the context as it was, so its stored error is still \<^verbatim>\<open>nil\<close>; the panic of a call ends
  the chain of calls it is in; and a panic of the handler is the panic of
  \<^verbatim>\<open>ValidateStruct\<close>, which then returns no result.
\<close>

theorem contract_violations_panic:
  "(err ctx = None \<and> rs n = None
      \<longrightarrow> Check rs n ps ctx w = (Panic (''Rule '' @ n @ '' has not been registered''), ctx, w))
   \<and> (err_v c = None \<and> validator c = Some v \<and> map_index (rules_v v) n = None
      \<longrightarrow> Check_v n ps c w
           = (Panic (''Rule '' @ n @ '' has not been registered to specified validator''), c, w))
   \<and> (typeHandlers g (TypeOf s) = None
      \<longrightarrow> ValidateStruct TypeOf Name g s w
           = (Panic (''Type '' @ [CHR 0x22] @ Name (TypeOf s) @ [CHR 0x22]
                      @ '' Hasn't been registered with RegisterType''), w))
   \<and> (length ps < 2
      \<longrightarrow> greaterThan ps
             = Panic (''greaterThan: expected at least 2 parameters, got '' @ digits (length ps))
           \<and> lessThan_rule ps
             = Panic (''lessThan: expected at least 2 parameters, got '' @ digits (length ps)))
   \<and> isEmail [] = Panic ''No parameters passed to email rule''
   \<and> (\<not> is_string p
      \<longrightarrow> isEmail (p # rest) = Panic ''Parameter passed to email rule is not a string'')
   \<and> (err ctx = None \<and> rs n = Some rule \<and> rule ps w = (Panic m, w')
      \<longrightarrow> Check rs n ps ctx w = (Panic m, ctx, w'))
   \<and> (err_v c = None \<and> validator c = Some v \<and> map_index (rules_v v) n = Some rule
       \<and> rule ps w = (Panic m, w')
      \<longrightarrow> Check_v n ps c w = (Panic m, c, w'))
   \<and> (err_v c = None \<and> validator c = None
      \<longrightarrow> Check_v n ps c w
           = (Panic ''runtime error: invalid memory address or nil pointer dereference'', c, w))
   \<and> (run_step rs st ctx w = (Panic m, ctx', w') \<longrightarrow> ctx' = ctx)
   \<and> (run_chain rs pre ctx w = (Return (), ctx1, w1) \<and> run_step rs st ctx1 w1 = (Panic m, ctx2, w2)
      \<longrightarrow> run_chain rs (pre @ st # post) ctx w = (Panic m, ctx1, w2))
   \<and> (typeHandlers g (TypeOf s) = Some handler
       \<and> handler s (rules g) \<lparr>err = None\<rparr> w = (Panic m, ctx', w')
      \<longrightarrow> ValidateStruct TypeOf Name g s w = (Panic m, w'))
   \<and> (typeHandlers g (TypeOf s) = Some (assert_type TypeOf (TypeOf s) (chain_handler body))
       \<and> body s = pre @ st # post
       \<and> run_chain (rules g) pre \<lparr>err = None\<rparr> w = (Return (), ctx1, w1)
       \<and> run_step (rules g) st ctx1 w1 = (Panic m, ctx2, w2)
      \<longrightarrow> ValidateStruct TypeOf Name g s w = (Panic m, w2))"
proof (intro conjI impI)
  show "Check rs n ps ctx w = (Panic (''Rule '' @ n @ '' has not been registered''), ctx, w)"
    if "err ctx = None \<and> rs n = None"
    using that by (simp add: Check_unregistered)
  show "Check_v n ps c w
      = (Panic (''Rule '' @ n @ '' has not been registered to specified validator''), c, w)"
    if "err_v c = None \<and> validator c = Some v \<and> map_index (rules_v v) n = None"
    using that by (simp add: Check_v_unregistered)
  show "ValidateStruct TypeOf Name g s w
      = (Panic (''Type '' @ [CHR 0x22] @ Name (TypeOf s) @ [CHR 0x22]
                 @ '' Hasn't been registered with RegisterType''), w)"
    if "typeHandlers g (TypeOf s) = None"
    using that by (rule ValidateStruct_unregistered)
  show "greaterThan ps
      = Panic (''greaterThan: expected at least 2 parameters, got '' @ digits (length ps))"
    if "length ps < 2"
    using comparison_arity [OF that] by simp
  show "lessThan_rule ps
      = Panic (''lessThan: expected at least 2 parameters, got '' @ digits (length ps))"
    if "length ps < 2"
    using comparison_arity [OF that] by simp
  show "isEmail [] = Panic ''No parameters passed to email rule''"
    by (simp add: isEmail_def)
  show "isEmail (p # rest) = Panic ''Parameter passed to email rule is not a string''"
    if "\<not> is_string p"
    using that by (rule isEmail_not_string)
  show "Check rs n ps ctx w = (Panic m, ctx, w')"
    if "err ctx = None \<and> rs n = Some rule \<and> rule ps w = (Panic m, w')"
    using that by (simp add: Check_rule_panics)
  show "Check_v n ps c w = (Panic m, c, w')"
    if "err_v c = None \<and> validator c = Some v \<and> map_index (rules_v v) n = Some rule
        \<and> rule ps w = (Panic m, w')"
    using that by (simp add: Check_v_rule_panics)
  show "Check_v n ps c w
      = (Panic ''runtime error: invalid memory address or nil pointer dereference'', c, w)"
    if "err_v c = None \<and> validator c = None"
    using that by (simp add: Check_v_nil_validator)
  show "ctx' = ctx" if "run_step rs st ctx w = (Panic m, ctx', w')"
    using that by (rule run_step_panic_keeps)
  show "run_chain rs (pre @ st # post) ctx w = (Panic m, ctx1, w2)"
    if "run_chain rs pre ctx w = (Return (), ctx1, w1)
        \<and> run_step rs st ctx1 w1 = (Panic m, ctx2, w2)"
    using that run_chain_step_panics [of rs pre ctx w ctx1 w1 st m ctx2 w2 post] by simp
  show "ValidateStruct TypeOf Name g s w = (Panic m, w')"
    if "typeHandlers g (TypeOf s) = Some handler
        \<and> handler s (rules g) \<lparr>err = None\<rparr> w = (Panic m, ctx', w')"
    using that ValidateStruct_handler_panics [of g TypeOf s handler w m ctx' w' Name] by simp
  show "ValidateStruct TypeOf Name g s w = (Panic m, w2)"
    if "typeHandlers g (TypeOf s) = Some (assert_type TypeOf (TypeOf s) (chain_handler body))
        \<and> body s = pre @ st # post
        \<and> run_chain (rules g) pre \<lparr>err = None\<rparr> w = (Return (), ctx1, w1)
        \<and> run_step (rules g) st ctx1 w1 = (Panic m, ctx2, w2)"
    using that
      ValidateStruct_chain_panics [of g TypeOf s body pre st post w ctx1 w1 m ctx2 w2 Name]
    by simp
qed

theorem contract_violations_panic_witness:
  "err \<lparr>err = None\<rparr> = None
   \<and> rules (Init example_globals) ''isEmail'' = None
   \<and> Check (rules (Init example_globals)) ''isEmail'' [VString ''a@b.c''] \<lparr>err = None\<rparr> (0::nat)
         = (Panic ''Rule isEmail has not been registered'', \<lparr>err = None\<rparr>, 0)
   \<and> err_v \<lparr>validator = Some example_validator, err_v = None\<rparr> = None
   \<and> map_index (rules_v example_validator) ''notEmpty'' = None
   \<and> Check_v ''notEmpty'' [VString ''a''] \<lparr>validator = Some example_validator, err_v = None\<rparr> (0::nat)
         = (Panic ''Rule notEmpty has not been registered to specified validator'', \<lparr>validator = Some example_validator, err_v = None\<rparr>, 0)
   \<and> typeHandlers example_globals (example_TypeOf (''Al'', 5)) = None
   \<and> ValidateStruct example_TypeOf example_Name example_globals (''Al'', 5) (0::nat)
         = (Panic (''Type '' @ [CHR 0x22] @ example_Name (example_TypeOf (''Al'', 5)) @ [CHR 0x22]
                   @ '' Hasn't been registered with RegisterType''), 0)
   \<and> length [VInt 1] < 2
   \<and> greaterThan [VInt 1] = Panic ''greaterThan: expected at least 2 parameters, got 1''
   \<and> lessThan_rule [VInt 1] = Panic ''lessThan: expected at least 2 parameters, got 1''
   \<and> \<not> is_string (VInt 1)
   \<and> isEmail [VInt 1] = Panic ''Parameter passed to email rule is not a string''
   \<and> rules (Init example_globals) ''greaterThan'' = Some (pure_rule greaterThan)
   \<and> pure_rule greaterThan [VInt 1] (0::nat) = (Panic ''greaterThan: expected at least 2 parameters, got 1'', 0)
   \<and> Check (rules (Init example_globals)) ''greaterThan'' [VInt 1] \<lparr>err = None\<rparr> (0::nat)
         = (Panic ''greaterThan: expected at least 2 parameters, got 1'', \<lparr>err = None\<rparr>, 0)
   \<and> err_v \<lparr>validator = Some builtin_validator, err_v = None\<rparr> = None
   \<and> map_index (rules_v builtin_validator) ''isEmail'' = Some (pure_rule isEmail)
   \<and> pure_rule isEmail [] (0::nat) = (Panic ''No parameters passed to email rule'', 0)
   \<and> Check_v ''isEmail'' [] \<lparr>validator = Some builtin_validator, err_v = None\<rparr> (0::nat)
         = (Panic ''No parameters passed to email rule'', \<lparr>validator = Some builtin_validator, err_v = None\<rparr>, 0)
   \<and> err_v \<lparr>validator = (None :: (string, string \<times> 64 word, nat, nat) Validator option), err_v = None\<rparr> = None
   \<and> Check_v ''notEmpty'' [VString ''a''] \<lparr>validator = (None :: (string, string \<times> 64 word, nat, nat) Validator option), err_v = None\<rparr> (0::nat)
         = (Panic ''runtime error: invalid memory address or nil pointer dereference'', \<lparr>validator = (None :: (string, string \<times> 64 word, nat, nat) Validator option), err_v = None\<rparr>, 0)
   \<and> run_step (rules (Init example_globals)) (CheckStep ''isEmail'' [VString ''a@b.c'']) \<lparr>err = None\<rparr> (0::nat)
         = (Panic ''Rule isEmail has not been registered'', \<lparr>err = None\<rparr>, 0)
   \<and> fst (snd (run_step (rules (Init example_globals)) (CheckStep ''isEmail'' [VString ''a@b.c'']) \<lparr>err = None\<rparr> (0::nat))) = \<lparr>err = None\<rparr>
   \<and> run_chain (rules (Init example_globals)) [CheckStep ''notEmpty'' [VString ''Al'']] \<lparr>err = None\<rparr> (0::nat) = (Return (), \<lparr>err = None\<rparr>, 0)
   \<and> run_chain (rules (Init example_globals)) ([CheckStep ''notEmpty'' [VString ''Al'']] @ CheckStep ''isEmail'' [VString ''a@b.c''] # [MessageStep ''email required'']) \<lparr>err = None\<rparr> (0::nat)
         = (Panic ''Rule isEmail has not been registered'', \<lparr>err = None\<rparr>, 0)
   \<and> typeHandlers unready_globals (example_TypeOf (''Al'', 5)) = Some (assert_type example_TypeOf (example_TypeOf (''Al'', 5)) (chain_handler person_body))
   \<and> assert_type example_TypeOf (example_TypeOf (''Al'', 5)) (chain_handler person_body) (''Al'', 5) (rules unready_globals) \<lparr>err = None\<rparr> (0::nat)
         = (Panic ''Rule notEmpty has not been registered'', \<lparr>err = None\<rparr>, 0)
   \<and> ValidateStruct example_TypeOf example_Name unready_globals (''Al'', 5) (0::nat)
         = (Panic ''Rule notEmpty has not been registered'', 0)
   \<and> typeHandlers unready_globals (example_TypeOf (''Bo'', 7)) = Some (assert_type example_TypeOf (example_TypeOf (''Bo'', 7)) (chain_handler person_body))
   \<and> person_body (''Bo'', 7) = [] @ CheckStep ''notEmpty'' [VString (fst (''Bo'', 7 :: 64 word))] # [MessageStep ''name required'', CheckStep ''greaterThan'' [VInt 0, VInt (snd (''Bo'', 7 :: 64 word))], MessageStep ''age must be positive'']
   \<and> run_chain (rules unready_globals) [] \<lparr>err = None\<rparr> (0::nat) = (Return (), \<lparr>err = None\<rparr>, 0)
   \<and> run_step (rules unready_globals) (CheckStep ''notEmpty'' [VString (fst (''Bo'', 7 :: 64 word))]) \<lparr>err = None\<rparr> (0::nat)
         = (Panic ''Rule notEmpty has not been registered'', \<lparr>err = None\<rparr>, 0)
   \<and> ValidateStruct example_TypeOf example_Name unready_globals (''Bo'', 7) (0::nat)
         = (Panic ''Rule notEmpty has not been registered'', 0)"
proof -
  have ok: "err \<lparr>err = None\<rparr> = None"
    by simp
  have no_email: "rules (Init example_globals) ''isEmail'' = None"
    by (simp add: Init_def RegisterRule_def example_globals_def globals_init_def)
  have w1: "Check (rules (Init example_globals)) ''isEmail'' [VString ''a@b.c''] \<lparr>err = None\<rparr> (0::nat)
         = (Panic ''Rule isEmail has not been registered'', \<lparr>err = None\<rparr>, 0)"
    using contract_violations_panic [THEN conjunct1, THEN mp,
        of "\<lparr>err = None\<rparr>" "rules (Init example_globals)" "''isEmail''" "[VString ''a@b.c'']" "0::nat"] ok no_email
    by simp
  have okv: "err_v \<lparr>validator = Some example_validator, err_v = None\<rparr> = None"
    by simp
  have no_rule: "map_index (rules_v example_validator) ''notEmpty'' = None"
    by (simp add: map_index_def example_validator_def)
  have w2: "Check_v ''notEmpty'' [VString ''a''] \<lparr>validator = Some example_validator, err_v = None\<rparr> (0::nat)
         = (Panic ''Rule notEmpty has not been registered to specified validator'', \<lparr>validator = Some example_validator, err_v = None\<rparr>, 0)"
    using contract_violations_panic [THEN conjunct2, THEN conjunct1, THEN mp,
        of "\<lparr>validator = Some example_validator, err_v = None\<rparr>" example_validator "''notEmpty''" "[VString ''a'']" "0::nat"] okv no_rule
    by simp
  have no_type: "typeHandlers example_globals (example_TypeOf (''Al'', 5)) = None"
    by (simp add: example_globals_def globals_init_def)
  have w3: "ValidateStruct example_TypeOf example_Name example_globals (''Al'', 5) (0::nat)
         = (Panic (''Type '' @ [CHR 0x22] @ example_Name (example_TypeOf (''Al'', 5)) @ [CHR 0x22]
                   @ '' Hasn't been registered with RegisterType''), 0)"
    using contract_violations_panic [THEN conjunct2, THEN conjunct2, THEN conjunct1, THEN mp,
        of example_globals example_TypeOf "(''Al'', 5)" example_Name "0::nat"] no_type
    by simp
  have short: "length [VInt 1] < 2"
    by simp
  have w4a: "greaterThan [VInt 1] = Panic ''greaterThan: expected at least 2 parameters, got 1''"
    using contract_violations_panic [THEN conjunct2, THEN conjunct2, THEN conjunct2, THEN conjunct1, THEN mp, of "[VInt 1]"] short
    by (simp add: digits.simps digit_def)
  have w4b: "lessThan_rule [VInt 1] = Panic ''lessThan: expected at least 2 parameters, got 1''"
    using contract_violations_panic [THEN conjunct2, THEN conjunct2, THEN conjunct2, THEN conjunct1, THEN mp, of "[VInt 1]"] short
    by (simp add: digits.simps digit_def)
  have not_string: "\<not> is_string (VInt 1)"
    by simp
  have w6: "isEmail [VInt 1] = Panic ''Parameter passed to email rule is not a string''"
    using contract_violations_panic [THEN conjunct2, THEN conjunct2, THEN conjunct2, THEN conjunct2, THEN conjunct2, THEN conjunct1, THEN mp, of "VInt 1" "[]"] not_string
    by simp
  have gt: "rules (Init example_globals) ''greaterThan'' = Some (pure_rule greaterThan)"
    by (simp add: Init_def RegisterRule_def)
  have gt_panics: "pure_rule greaterThan [VInt 1] (0::nat) = (Panic ''greaterThan: expected at least 2 parameters, got 1'', 0)"
    by (simp add: pure_rule_def greaterThan_def digits.simps digit_def)
  have w7: "Check (rules (Init example_globals)) ''greaterThan'' [VInt 1] \<lparr>err = None\<rparr> (0::nat)
         = (Panic ''greaterThan: expected at least 2 parameters, got 1'', \<lparr>err = None\<rparr>, 0)"
    using contract_violations_panic [THEN conjunct2, THEN conjunct2, THEN conjunct2, THEN conjunct2, THEN conjunct2, THEN conjunct2, THEN conjunct1, THEN mp,
        of "\<lparr>err = None\<rparr>" "rules (Init example_globals)" "''greaterThan''" "pure_rule greaterThan" "[VInt 1]" "0::nat"
           "''greaterThan: expected at least 2 parameters, got 1''" "0::nat"] ok gt gt_panics
    by simp
  have okb: "err_v \<lparr>validator = Some builtin_validator, err_v = None\<rparr> = None"
    by simp
  have email_v: "map_index (rules_v builtin_validator) ''isEmail'' = Some (pure_rule isEmail)"
    by (simp add: map_index_def builtin_validator_def)
  have email_panics: "pure_rule isEmail [] (0::nat) = (Panic ''No parameters passed to email rule'', 0)"
    by (simp add: pure_rule_def isEmail_def)
  have w8: "Check_v ''isEmail'' [] \<lparr>validator = Some builtin_validator, err_v = None\<rparr> (0::nat)
         = (Panic ''No parameters passed to email rule'', \<lparr>validator = Some builtin_validator, err_v = None\<rparr>, 0)"
    using contract_violations_panic [THEN conjunct2, THEN conjunct2, THEN conjunct2, THEN conjunct2, THEN conjunct2, THEN conjunct2, THEN conjunct2, THEN conjunct1, THEN mp,
        of "\<lparr>validator = Some builtin_validator, err_v = None\<rparr>" builtin_validator "''isEmail''" "pure_rule isEmail" "[]" "0::nat"
           "''No parameters passed to email rule''" "0::nat"] okb email_v email_panics
    by simp
  have okn: "err_v \<lparr>validator = (None :: (string, string \<times> 64 word, nat, nat) Validator option), err_v = None\<rparr> = None"
    by simp
  have w9: "Check_v ''notEmpty'' [VString ''a''] \<lparr>validator = (None :: (string, string \<times> 64 word, nat, nat) Validator option), err_v = None\<rparr> (0::nat)
         = (Panic ''runtime error: invalid memory address or nil pointer dereference'', \<lparr>validator = (None :: (string, string \<times> 64 word, nat, nat) Validator option), err_v = None\<rparr>, 0)"
    using contract_violations_panic [THEN conjunct2, THEN conjunct2, THEN conjunct2, THEN conjunct2, THEN conjunct2, THEN conjunct2, THEN conjunct2, THEN conjunct2, THEN conjunct1, THEN mp,
        of "\<lparr>validator = (None :: (string, string \<times> 64 word, nat, nat) Validator option), err_v = None\<rparr>" "''notEmpty''" "[VString ''a'']" "0::nat"] okn
    by simp
  have step: "run_step (rules (Init example_globals)) (CheckStep ''isEmail'' [VString ''a@b.c'']) \<lparr>err = None\<rparr> (0::nat)
         = (Panic ''Rule isEmail has not been registered'', \<lparr>err = None\<rparr>, 0)"
    using ok no_email by (simp add: Check_def)
  have w10: "fst (snd (run_step (rules (Init example_globals)) (CheckStep ''isEmail'' [VString ''a@b.c'']) \<lparr>err = None\<rparr> (0::nat))) = \<lparr>err = None\<rparr>"
    using contract_violations_panic [THEN conjunct2, THEN conjunct2, THEN conjunct2, THEN conjunct2, THEN conjunct2, THEN conjunct2, THEN conjunct2, THEN conjunct2, THEN conjunct2, THEN conjunct1, THEN mp,
        of "rules (Init example_globals)" "CheckStep ''isEmail'' [VString ''a@b.c'']" "\<lparr>err = None\<rparr>" "0::nat" "''Rule isEmail has not been registered''"
           "fst (snd (run_step (rules (Init example_globals)) (CheckStep ''isEmail'' [VString ''a@b.c'']) \<lparr>err = None\<rparr> (0::nat)))" "0::nat"] step
    by simp
  have pre: "run_chain (rules (Init example_globals)) [CheckStep ''notEmpty'' [VString ''Al'']] \<lparr>err = None\<rparr> (0::nat) = (Return (), \<lparr>err = None\<rparr>, 0)"
    by (simp add: Check_def Init_rules pure_rule_def TrimSpace_examples_Al)
  have w11: "run_chain (rules (Init example_globals)) ([CheckStep ''notEmpty'' [VString ''Al'']] @ CheckStep ''isEmail'' [VString ''a@b.c''] # [MessageStep ''email required'']) \<lparr>err = None\<rparr> (0::nat)
         = (Panic ''Rule isEmail has not been registered'', \<lparr>err = None\<rparr>, 0)"
    using contract_violations_panic [THEN conjunct2, THEN conjunct2, THEN conjunct2, THEN conjunct2, THEN conjunct2, THEN conjunct2, THEN conjunct2, THEN conjunct2, THEN conjunct2, THEN conjunct2, THEN conjunct1, THEN mp,
        of "rules (Init example_globals)" "[CheckStep ''notEmpty'' [VString ''Al'']]" "\<lparr>err = None\<rparr>" "0::nat" "\<lparr>err = None\<rparr>" "0::nat" "CheckStep ''isEmail'' [VString ''a@b.c'']" "''Rule isEmail has not been registered''"
           "\<lparr>err = None\<rparr>" "0::nat" "[MessageStep ''email required'']"] pre step
    by simp
  have handler: "typeHandlers unready_globals (example_TypeOf (''Al'', 5)) = Some (assert_type example_TypeOf (example_TypeOf (''Al'', 5)) (chain_handler person_body))"
    by (simp add: unready_globals_def RegisterType_def example_TypeOf_def)
  have no_rules: "rules unready_globals ''notEmpty'' = None"
    by (simp add: unready_globals_def RegisterType_def example_globals_def globals_init_def)
  have handler_panics: "assert_type example_TypeOf (example_TypeOf (''Al'', 5)) (chain_handler person_body) (''Al'', 5) (rules unready_globals) \<lparr>err = None\<rparr> (0::nat)
         = (Panic ''Rule notEmpty has not been registered'', \<lparr>err = None\<rparr>, 0)"
    using no_rules by (simp add: assert_type_def chain_handler_def person_body_def Check_def)
  have w12: "ValidateStruct example_TypeOf example_Name unready_globals (''Al'', 5) (0::nat)
         = (Panic ''Rule notEmpty has not been registered'', 0)"
    using contract_violations_panic [THEN conjunct2, THEN conjunct2, THEN conjunct2, THEN conjunct2, THEN conjunct2, THEN conjunct2, THEN conjunct2, THEN conjunct2, THEN conjunct2, THEN conjunct2, THEN conjunct2, THEN conjunct1, THEN mp,
        of unready_globals example_TypeOf "(''Al'', 5)" "assert_type example_TypeOf (example_TypeOf (''Al'', 5)) (chain_handler person_body)" "0::nat" "''Rule notEmpty has not been registered''"
           "\<lparr>err = None\<rparr>" "0::nat" example_Name] handler handler_panics
    by simp
  have handlerB: "typeHandlers unready_globals (example_TypeOf (''Bo'', 7)) = Some (assert_type example_TypeOf (example_TypeOf (''Bo'', 7)) (chain_handler person_body))"
    by (simp add: unready_globals_def RegisterType_def example_TypeOf_def)
  have body: "person_body (''Bo'', 7) = [] @ CheckStep ''notEmpty'' [VString (fst (''Bo'', 7 :: 64 word))] # [MessageStep ''name required'', CheckStep ''greaterThan'' [VInt 0, VInt (snd (''Bo'', 7 :: 64 word))], MessageStep ''age must be positive'']"
    by (simp add: person_body_def)
  have pre0: "run_chain (rules unready_globals) [] \<lparr>err = None\<rparr> (0::nat) = (Return (), \<lparr>err = None\<rparr>, 0)"
    by simp
  have step1: "run_step (rules unready_globals) (CheckStep ''notEmpty'' [VString (fst (''Bo'', 7 :: 64 word))]) \<lparr>err = None\<rparr> (0::nat)
         = (Panic ''Rule notEmpty has not been registered'', \<lparr>err = None\<rparr>, 0)"
    using no_rules by (simp add: Check_def)
  have w13: "ValidateStruct example_TypeOf example_Name unready_globals (''Bo'', 7) (0::nat)
         = (Panic ''Rule notEmpty has not been registered'', 0)"
    using contract_violations_panic [THEN conjunct2, THEN conjunct2, THEN conjunct2, THEN conjunct2, THEN conjunct2, THEN conjunct2, THEN conjunct2, THEN conjunct2, THEN conjunct2, THEN conjunct2, THEN conjunct2, THEN conjunct2, THEN mp,
        of unready_globals example_TypeOf "(''Bo'', 7)" person_body "[]" "CheckStep ''notEmpty'' [VString (fst (''Bo'', 7 :: 64 word))]"
           "[MessageStep ''name required'', CheckStep ''greaterThan'' [VInt 0, VInt (snd (''Bo'', 7 :: 64 word))], MessageStep ''age must be positive'']" "0::nat" "\<lparr>err = None\<rparr>" "0::nat" "''Rule notEmpty has not been registered''" "\<lparr>err = None\<rparr>" "0::nat" example_Name]
      handlerB body pre0 step1
    by simp
  show ?thesis
    by (intro conjI) (fact ok no_email w1 okv no_rule w2 no_type w3 short w4a w4b not_string w6 gt gt_panics w7 okb email_v email_panics w8 okn w9 step w10 pre w11 handler handler_panics w12 handlerB body pre0 step1 w13)+
qed

end
